theory Spec2Isabelle
  imports Complex_Main "HOL-Library.AList"
begin

section \<open>Snapmaker 2.0 CNC postprocessor: instruction model\<close>

text \<open>
  The development follows \<^verbatim>\<open>Snapmaker_2_CNC_post.py\<close>. Python floats are modelled as
  exact rationals: every finite float is a rational, and the arithmetic of the source
  (\<^verbatim>\<open>+\<close>, \<^verbatim>\<open>-\<close>, \<^verbatim>\<open>*\<close>, \<^verbatim>\<open>//\<close>, comparisons) is taken without rounding. The boundary check is
  the exception: there the outcome hangs on one subtraction compared with a limit, so the
  rounding subtraction and addition of floats are arguments of the model.
\<close>

datatype error = AttributeError | KeyError | TypeError | ValueError | ZeroDivisionError

subsection \<open>Parameter dictionaries\<close>

text \<open>
  \<^verbatim>\<open>Path.Command.Parameters\<close> is a dict from parameter letters to floats. It is kept as an
  association list; \<^verbatim>\<open>d[k]\<close>, \<^verbatim>\<open>d.get(k)\<close>, \<^verbatim>\<open>k in d\<close> and \<^verbatim>\<open>d1 == d2\<close> read it as a map.
\<close>

type_synonym pydict = "(string \<times> rat) list"

definition dict_get :: "pydict \<Rightarrow> string \<Rightarrow> rat option" where
  "dict_get d k = map_of d k"

definition dict_in :: "string \<Rightarrow> pydict \<Rightarrow> bool" where
  "dict_in k d = (map_of d k \<noteq> None)"

definition dict_getitem :: "pydict \<Rightarrow> string \<Rightarrow> error + rat" where
  "dict_getitem d k = (case map_of d k of None \<Rightarrow> Inl KeyError | Some v \<Rightarrow> Inr v)"

definition dict_eq :: "pydict \<Rightarrow> pydict \<Rightarrow> bool" where
  "dict_eq p q = list_all (\<lambda>k. map_of p k = map_of q k) (map fst p @ map fst q)"

subsection \<open>Lines of the stream\<close>

text \<open>
  \<^verbatim>\<open>class Command\<close> wraps a \<^verbatim>\<open>Path.Command\<close> (a name and its parameters). A line of the
  \<^verbatim>\<open>Gcode\<close> list is a \<^verbatim>\<open>Command\<close>, a plain \<^verbatim>\<open>str\<close>, a \<^verbatim>\<open>Comment\<close> or a \<^verbatim>\<open>Header\<close>
  (both subclasses of \<^verbatim>\<open>str\<close>, carrying their text without the comment symbols).
\<close>

record command =
  Name :: string
  Parameters :: pydict

datatype line = Cmd command | Str string | Comment string | Header string

text \<open>The text of a \<^verbatim>\<open>str\<close> instance (plain, \<^verbatim>\<open>Comment\<close> or \<^verbatim>\<open>Header\<close>).\<close>

fun str_value :: "line \<Rightarrow> string option" where
  "str_value (Cmd c) = None"
| "str_value (Str s) = Some s"
| "str_value (Comment s) = Some s"
| "str_value (Header s) = Some s"

subsection \<open>Equality of lines, with the exception made explicit\<close>

text \<open>
  \<^verbatim>\<open>other.Name\<close> and \<^verbatim>\<open>other.Parameters\<close> exist on a \<^verbatim>\<open>Command\<close> only; on a \<^verbatim>\<open>str\<close> the
  attribute access raises \<^verbatim>\<open>AttributeError\<close>.
\<close>

fun attr_Name :: "line \<Rightarrow> error + string" where
  "attr_Name (Cmd c) = Inr (Name c)"
| "attr_Name other = Inl AttributeError"

fun attr_Parameters :: "line \<Rightarrow> error + pydict" where
  "attr_Parameters (Cmd c) = Inr (Parameters c)"
| "attr_Parameters other = Inl AttributeError"

text \<open>
  The body of the \<^verbatim>\<open>try\<close> in \<^verbatim>\<open>Command.__eq__\<close>:
  \<^verbatim>\<open>self._cmd.Name == other.Name and self._cmd.Parameters == other.Parameters\<close>.
  The right operand of \<^verbatim>\<open>and\<close> is evaluated only when the names are equal.
\<close>

definition Command_eq_body :: "command \<Rightarrow> line \<Rightarrow> error + bool" where
  "Command_eq_body c other =
     (case attr_Name other of
        Inl e \<Rightarrow> Inl e
      | Inr n \<Rightarrow>
          if Name c = n then
            (case attr_Parameters other of
               Inl e \<Rightarrow> Inl e
             | Inr p \<Rightarrow> Inr (dict_eq (Parameters c) p))
          else Inr False)"

text \<open>\<^verbatim>\<open>Command.__eq__\<close>: \<^verbatim>\<open>except AttributeError: return False\<close>; any other error propagates.\<close>

definition Command_eq_try :: "command \<Rightarrow> line \<Rightarrow> error + bool" where
  "Command_eq_try c other =
     (case Command_eq_body c other of
        Inl AttributeError \<Rightarrow> Inr False
      | Inl e \<Rightarrow> Inl e
      | Inr b \<Rightarrow> Inr b)"

text \<open>
  \<^verbatim>\<open>str.__eq__\<close> answers for a \<^verbatim>\<open>str\<close> operand (comparing the text, whatever the subclass)
  and returns \<^verbatim>\<open>NotImplemented\<close> (here \<open>None\<close>) for anything else.
\<close>

definition str_eq :: "string \<Rightarrow> line \<Rightarrow> bool option" where
  "str_eq s other = (case str_value other of None \<Rightarrow> None | Some t \<Rightarrow> Some (s = t))"

text \<open>
  The operator \<^verbatim>\<open>a == b\<close>: the left operand's \<^verbatim>\<open>__eq__\<close> first; when it returns
  \<^verbatim>\<open>NotImplemented\<close> the reflected \<^verbatim>\<open>b.__eq__(a)\<close> is tried.
\<close>

definition str_eq_try :: "string \<Rightarrow> line \<Rightarrow> line \<Rightarrow> error + bool" where
  "str_eq_try s a b =
     (case str_eq s b of
        Some r \<Rightarrow> Inr r
      | None \<Rightarrow> (case b of Cmd c \<Rightarrow> Command_eq_try c a | _ \<Rightarrow> Inr False))"

fun line_eq_try :: "line \<Rightarrow> line \<Rightarrow> error + bool" where
  "line_eq_try (Cmd c) b = Command_eq_try c b"
| "line_eq_try (Str s) b = str_eq_try s (Str s) b"
| "line_eq_try (Comment s) b = str_eq_try s (Comment s) b"
| "line_eq_try (Header s) b = str_eq_try s (Header s) b"

text \<open>
  The same two functions as plain booleans, which is how the rest of the program uses
  them (\<open>Command_eq_total\<close> below shows that no error branch is ever taken).
\<close>

fun Command_eq :: "command \<Rightarrow> line \<Rightarrow> bool" where
  "Command_eq c (Cmd c') = (Name c = Name c' \<and> dict_eq (Parameters c) (Parameters c'))"
| "Command_eq c other = False"

fun line_eq :: "line \<Rightarrow> line \<Rightarrow> bool" where
  "line_eq (Cmd c) b = Command_eq c b"
| "line_eq a (Cmd c) = Command_eq c a"
| "line_eq a b = (str_value a = str_value b)"

section \<open>The Gcode stream\<close>

text \<open>
  \<^verbatim>\<open>conf.tool_change\<close> is \<^verbatim>\<open>True\<close>, \<^verbatim>\<open>False\<close> or a custom gcode text.
\<close>

datatype tool_change = TC_flag bool | TC_gcode string

text \<open>The options of \<^verbatim>\<open>self.conf\<close> that the modelled methods read.\<close>

record conf =
  remove_duplicates :: bool
  line_numbers :: bool
  line_start :: int
  line_increment :: int
  spacer :: string
  header :: bool
  comments :: bool
  comment_symbols :: "string \<times> string"
  units :: string
  precision :: int
  commands :: "string list"
  translate_drill_cycles :: bool
  spindle_wait :: int
  tool_change :: tool_change
  pause :: string
  machine :: "string option"
  boundaries_check :: bool

text \<open>
  \<^verbatim>\<open>Gcode.append\<close>: the line is dropped when duplicates are removed, the list is not empty
  and its last line equals the new one.
\<close>

definition is_duplicate :: "conf \<Rightarrow> line list \<Rightarrow> line \<Rightarrow> bool" where
  "is_duplicate cf g x = (remove_duplicates cf \<and> length g \<noteq> 0 \<and> line_eq (last g) x)"

definition Gcode_append :: "conf \<Rightarrow> line list \<Rightarrow> line \<Rightarrow> line list" where
  "Gcode_append cf g x = (if is_duplicate cf g x then g else g @ [x])"

text \<open>\<^verbatim>\<open>range(i, 0, -1)\<close>.\<close>

definition range_down :: "int \<Rightarrow> int list" where
  "range_down i = rev [1..i]"

text \<open>
  The loop of \<^verbatim>\<open>lastCommand\<close>. Its body ends with \<^verbatim>\<open>return default\<close> inside the \<^verbatim>\<open>for\<close>,
  so the first index is the only one examined; an empty range falls off the loop and the
  method returns \<^verbatim>\<open>None\<close>.
\<close>

fun lastCommand_loop :: "line list \<Rightarrow> string list \<Rightarrow> command option \<Rightarrow> int list \<Rightarrow> command option" where
  "lastCommand_loop g names dflt [] = None"
| "lastCommand_loop g names dflt (i # rest) =
     (case g ! nat i of
        Cmd c \<Rightarrow> if Name c \<in> set names then Some c else dflt
      | _ \<Rightarrow> dflt)"

definition lastCommand :: "line list \<Rightarrow> string list \<Rightarrow> int \<Rightarrow> command option \<Rightarrow> command option" where
  "lastCommand g names start dflt =
     (if length g = 0 then dflt
      else lastCommand_loop g names dflt (range_down (start mod int (length g))))"

text \<open>
  The loop of \<^verbatim>\<open>lastParameter\<close>, of the same shape. The \<^verbatim>\<open>KeyError\<close> handler cannot fire:
  the parameter was just tested to be in the dict.
\<close>

fun lastParameter_loop :: "line list \<Rightarrow> string \<Rightarrow> string list \<Rightarrow> rat option \<Rightarrow> int list \<Rightarrow> rat option" where
  "lastParameter_loop g param names dflt [] = None"
| "lastParameter_loop g param names dflt (i # rest) =
     (case g ! nat i of
        Cmd c \<Rightarrow>
          if (names = [] \<or> Name c \<in> set names) \<and> dict_in param (Parameters c) then
            (case dict_getitem (Parameters c) param of Inl e \<Rightarrow> dflt | Inr v \<Rightarrow> Some v)
          else dflt
      | _ \<Rightarrow> dflt)"

definition lastParameter :: "line list \<Rightarrow> string \<Rightarrow> string list \<Rightarrow> int \<Rightarrow> rat option \<Rightarrow> rat option" where
  "lastParameter g param names start dflt =
     (if length g = 0 then dflt
      else lastParameter_loop g param names dflt (range_down (start mod int (length g))))"

section \<open>The postprocessor\<close>

text \<open>
  Console output of \<^verbatim>\<open>FreeCAD.Console\<close> (\<^verbatim>\<open>PrintLog\<close>, \<^verbatim>\<open>PrintMessage\<close>, \<^verbatim>\<open>PrintWarning\<close>,
  \<^verbatim>\<open>PrintError\<close>) is collected in the state, in order.
\<close>

datatype level = Log | Message | Warning | Error

text \<open>
  Rapid speeds \<^verbatim>\<open>(VertRapid, HorizRapid)\<close>, as a tool controller or a job's setup sheet
  gives them.
\<close>

type_synonym speeds = "rat \<times> rat"

text \<open>
  The state of a \<^verbatim>\<open>Postprocessor\<close>: the lines of \<^verbatim>\<open>self.gcode\<close>, its attribute
  \<^verbatim>\<open>drillRetractMode\<close> (a \<^verbatim>\<open>Command\<close> at first, a \<^verbatim>\<open>str\<close> once \<^verbatim>\<open>parseObject\<close> has set it),
  the rapid speeds of \<^verbatim>\<open>self.job\<close> (\<open>None\<close> when there is no job) and the console.
\<close>

record post =
  gcode :: "line list"
  drillRetractMode :: line
  job :: "speeds option"
  console :: "(level \<times> string) list"

text \<open>
  An object handed to \<^verbatim>\<open>parseObject\<close>: its name, the commands of its path and the rapid
  speeds of its tool controller (\<open>None\<close> when it has no \<^verbatim>\<open>ToolController\<close>).
\<close>

record pathobject =
  obj_Name :: string
  obj_Commands :: "command list"
  obj_ToolController :: "speeds option"

definition DRILL_RETRACT_MODE :: string where
  "DRILL_RETRACT_MODE = ''G98''"

definition GCODE_COMMANDS :: "string list" where
  "GCODE_COMMANDS =
     [''G0'', ''G00'', ''G1'', ''G01'', ''G2'', ''G02'', ''G3'', ''G03'', ''G4'', ''G04'',
      ''G17'', ''G21'', ''G28'', ''G54'', ''G80'', ''G90'', ''M3'', ''M03'', ''M4'', ''M04'',
      ''M5'', ''M05'', ''M17'', ''M18'', ''M25'', ''M76'', ''M81'']"

text \<open>The module's default configuration values.\<close>

definition default_conf :: conf where
  "default_conf =
     \<lparr>remove_duplicates = True, line_numbers = False, line_start = 1, line_increment = 1,
      spacer = '' '', header = True, comments = True, comment_symbols = ('';'', []),
      units = ''mm'', precision = 3, commands = GCODE_COMMANDS,
      translate_drill_cycles = True, spindle_wait = 0, tool_change = TC_flag True,
      pause = ''M76'', machine = None, boundaries_check = True\<rparr>"

text \<open>\<^verbatim>\<open>Gcode.__init__\<close> on an empty list, for a postprocessor whose job has speeds \<open>j\<close>.\<close>

definition Gcode_init :: "speeds option \<Rightarrow> post" where
  "Gcode_init j =
     \<lparr>gcode = [], drillRetractMode = Cmd \<lparr>Name = DRILL_RETRACT_MODE, Parameters = []\<rparr>,
      job = j, console = []\<rparr>"

text \<open>
  \<^verbatim>\<open>getRapidSpeeds(obj, job)\<close>: the object's tool controller first, else the job, else
  a warning and \<^verbatim>\<open>(None, None)\<close>.
\<close>

definition getRapidSpeeds :: "speeds option \<Rightarrow> speeds option \<Rightarrow> speeds option \<times> (level \<times> string) list" where
  "getRapidSpeeds obj jb =
     (case obj of
        Some vh \<Rightarrow> (Some vh, [])
      | None \<Rightarrow>
         (case jb of
            Some vh \<Rightarrow> (Some vh, [])
          | None \<Rightarrow> (None, [(Warning, ''No Rapid speeds (vertical and horizontal) set for the selected job'')])))"

text \<open>
  \<^verbatim>\<open>Command.addParameter\<close> rebuilds the command from its gcode text with the parameter
  added; it is taken as setting the parameter in the dict.
\<close>

definition addParameter :: "command \<Rightarrow> string \<Rightarrow> rat \<Rightarrow> command" where
  "addParameter c k v = c\<lparr>Parameters := AList.update k v (Parameters c)\<rparr>"

text \<open>
  The feed rate that \<^verbatim>\<open>addCommand\<close> adds to a rapid move without one, from the rapid
  speeds found.
\<close>

definition rapid_feed :: "command \<Rightarrow> speeds option \<Rightarrow> command" where
  "rapid_feed cmd rapid =
     (case rapid of
        Some (vRapidSpeed, hRapidSpeed) \<Rightarrow>
          if dict_in ''X'' (Parameters cmd) \<or> dict_in ''Y'' (Parameters cmd) then
            if dict_in ''Z'' (Parameters cmd) then addParameter cmd ''F'' (min vRapidSpeed hRapidSpeed)
            else addParameter cmd ''F'' hRapidSpeed
          else if dict_in ''Z'' (Parameters cmd) then addParameter cmd ''F'' vRapidSpeed
          else cmd
      | None \<Rightarrow> cmd)"

text \<open>
  \<^verbatim>\<open>Postprocessor.addCommand\<close>. The command is appended first and amended with a feed
  rate afterwards; the amended object is the one in the list, so the last line of the
  stream changes with it when the append was not dropped as a duplicate.
\<close>

definition addCommand :: "conf \<Rightarrow> post \<Rightarrow> string \<Rightarrow> pydict \<Rightarrow> speeds option \<Rightarrow> post" where
  "addCommand cf st name parameters obj =
     (let cmd = \<lparr>Name = name, Parameters = parameters\<rparr> in
      if (name = ''G0'' \<or> name = ''G00'') \<and> \<not> dict_in ''F'' parameters then
        (case getRapidSpeeds obj (job st) of
           (rapid, msgs) \<Rightarrow>
             st\<lparr>gcode := (if is_duplicate cf (gcode st) (Cmd cmd) then gcode st
                          else gcode st @ [Cmd (rapid_feed cmd rapid)]),
                console := console st @ msgs\<rparr>)
      else st\<lparr>gcode := Gcode_append cf (gcode st) (Cmd cmd)\<rparr>)"

subsection \<open>Translation of canned drill cycles\<close>

text \<open>
  The retract height of \<^verbatim>\<open>translateDrill\<close>:
  \<^verbatim>\<open>if self.gcode.drillRetractMode == "G98" and position['Z'] > drillR\<close>. Comparing
  \<^verbatim>\<open>None\<close> with a float raises \<^verbatim>\<open>TypeError\<close>.
\<close>

definition retractZ_of :: "line \<Rightarrow> rat option \<Rightarrow> rat \<Rightarrow> error + rat" where
  "retractZ_of mode posZ drillR =
     (if line_eq mode (Str ''G98'') then
        (case posZ of
           None \<Rightarrow> Inl TypeError
         | Some z \<Rightarrow> if z > drillR then Inr z else Inr drillR)
      else Inr drillR)"

text \<open>
  The \<^verbatim>\<open>while\<close> loop of the peck cycle (G83). It may run forever (a step of zero never
  leaves it), so it is a partial function: \<open>None\<close> stands for a loop that does not return.
\<close>

partial_function (option) peck_loop ::
  "conf \<Rightarrow> speeds option \<Rightarrow> rat \<Rightarrow> rat \<Rightarrow> rat \<Rightarrow> rat \<Rightarrow> post \<Rightarrow> rat \<Rightarrow> post option" where
  "peck_loop cf obj drillZ drillR drillF drillStep st nextStopZ =
     (if nextStopZ \<ge> drillZ then
        (let st1 = addCommand cf st ''G1'' [(''Z'', nextStopZ), (''F'', drillF)] None in
         if (nextStopZ - drillStep) \<ge> drillZ then
           (let st2 = addCommand cf st1 ''G0'' [(''Z'', drillR)] obj;
                st3 = addCommand cf st2 ''G0'' [(''Z'', nextStopZ + drillStep * (1/2))] obj
            in peck_loop cf obj drillZ drillR drillF drillStep st3 (nextStopZ - drillStep))
         else if nextStopZ = drillZ then Some st1
         else
           (let st2 = addCommand cf st1 ''G0'' [(''Z'', drillR)] obj;
                st3 = addCommand cf st2 ''G0'' [(''Z'', nextStopZ + drillStep * (1/2))] obj
            in Some (addCommand cf st3 ''G1'' [(''Z'', drillZ), (''F'', drillF)] None)))
      else Some st)"

declare peck_loop.simps [code]

text \<open>The branches on the cycle's name (G81, G82, G83).\<close>

definition drill_cycle ::
  "conf \<Rightarrow> post \<Rightarrow> command \<Rightarrow> speeds option \<Rightarrow> rat \<Rightarrow> rat \<Rightarrow> rat \<Rightarrow> (error + post) option" where
  "drill_cycle cf st cmd obj drillZ drillR drillF =
     (if Name cmd = ''G81'' then
        Some (Inr (addCommand cf st ''G1'' [(''Z'', drillZ), (''F'', drillF)] None))
      else if Name cmd = ''G82'' then
        (let st1 = addCommand cf st ''G1'' [(''Z'', drillZ), (''F'', drillF)] None in
         case dict_getitem (Parameters cmd) ''P'' of
           Inl e \<Rightarrow> Some (Inl e)
         | Inr p \<Rightarrow> Some (Inr (addCommand cf st1 ''G4'' [(''S'', p)] None)))
      else if Name cmd = ''G83'' then
        (case dict_getitem (Parameters cmd) ''Q'' of
           Inl e \<Rightarrow> Some (Inl e)
         | Inr drillStep \<Rightarrow>
             map_option Inr
               (peck_loop cf obj drillZ drillR drillF drillStep st (drillR - drillStep)))
      else Some (Inr st))"

text \<open>
  The moves of a cycle that is not rejected: clearance, XY positioning, rapid to R, the
  cycle itself and the final retract.
\<close>

definition drill_moves ::
  "conf \<Rightarrow> post \<Rightarrow> command \<Rightarrow> speeds option \<Rightarrow> (string \<Rightarrow> rat option) \<Rightarrow>
   rat \<Rightarrow> rat \<Rightarrow> rat \<Rightarrow> rat \<Rightarrow> rat \<Rightarrow> (error + post) option" where
  "drill_moves cf st cmd obj position drillX drillY drillZ drillR drillF =
     (case retractZ_of (drillRetractMode st) (position ''Z'') drillR of
        Inl e \<Rightarrow> Some (Inl e)
      | Inr retractZ \<Rightarrow>
         (case position ''Z'' of
            None \<Rightarrow> Some (Inl TypeError)
          | Some posZ \<Rightarrow>
             (let st1 = (if posZ < retractZ then addCommand cf st ''G0'' [(''Z'', retractZ)] obj
                         else st);
                  st2 = (if position ''X'' \<noteq> Some drillX \<and> position ''Y'' \<noteq> Some drillY
                         then addCommand cf st1 ''G0'' [(''X'', drillX), (''Y'', drillY)] obj
                         else st1);
                  st3 = addCommand cf st2 ''G0'' [(''Z'', drillR)] obj
              in case drill_cycle cf st3 cmd obj drillZ drillR drillF of
                   None \<Rightarrow> None
                 | Some (Inl e) \<Rightarrow> Some (Inl e)
                 | Some (Inr st4) \<Rightarrow>
                     Some (Inr (addCommand cf st4 ''G0'' [(''Z'', retractZ)] obj)))))"

text \<open>
  \<^verbatim>\<open>Postprocessor.translateDrill\<close>. The five parameters are read first (a missing one
  raises \<^verbatim>\<open>KeyError\<close>), then the position is looked up in the stream, then the cycle is
  rejected when R is below Z.
\<close>

definition translateDrill :: "conf \<Rightarrow> post \<Rightarrow> command \<Rightarrow> speeds option \<Rightarrow> (error + post) option" where
  "translateDrill cf st cmd obj =
     (case dict_getitem (Parameters cmd) ''X'' of Inl e \<Rightarrow> Some (Inl e) | Inr drillX \<Rightarrow>
     (case dict_getitem (Parameters cmd) ''Y'' of Inl e \<Rightarrow> Some (Inl e) | Inr drillY \<Rightarrow>
     (case dict_getitem (Parameters cmd) ''Z'' of Inl e \<Rightarrow> Some (Inl e) | Inr drillZ \<Rightarrow>
     (case dict_getitem (Parameters cmd) ''R'' of Inl e \<Rightarrow> Some (Inl e) | Inr drillR \<Rightarrow>
     (case dict_getitem (Parameters cmd) ''F'' of Inl e \<Rightarrow> Some (Inl e) | Inr drillF \<Rightarrow>
       (let position = (\<lambda>param. lastParameter (gcode st) param [] (- 1) (Some 0)) in
        if drillR < drillZ then
          Some (Inr (st\<lparr>console := console st @ [(Error, ''Drill cycle error: R less than Z'')]\<rparr>))
        else drill_moves cf st cmd obj position drillX drillY drillZ drillR drillF))))))"

subsection \<open>Walking the commands of a path\<close>

text \<open>
  \<^verbatim>\<open>str.splitlines()\<close> on the line boundaries that are single bytes (\<^verbatim>\<open>\n\<close>, \<^verbatim>\<open>\r\<close>,
  \<^verbatim>\<open>\r\n\<close>, \<^verbatim>\<open>\v\<close>, \<^verbatim>\<open>\f\<close>, \<^verbatim>\<open>\x1c\<close>, \<^verbatim>\<open>\x1d\<close>, \<^verbatim>\<open>\x1e\<close>). A last line without a
  boundary is kept when it is not empty.
\<close>

definition is_linebreak :: "char \<Rightarrow> bool" where
  "is_linebreak c = (c \<in> set [CHR 0x0A, CHR 0x0D, CHR 0x0B, CHR 0x0C, CHR 0x1C, CHR 0x1D, CHR 0x1E])"

fun splitlines_from :: "string \<Rightarrow> string \<Rightarrow> string list" where
  "splitlines_from cur [] = (if cur = [] then [] else [cur])"
| "splitlines_from cur [c] = (if is_linebreak c then [cur] else [cur @ [c]])"
| "splitlines_from cur (c # d # cs) =
     (if c = CHR 0x0D \<and> d = CHR 0x0A then cur # splitlines_from [] cs
      else if is_linebreak c then cur # splitlines_from [] (d # cs)
      else splitlines_from (cur @ [c]) (d # cs))"

definition splitlines :: "string \<Rightarrow> string list" where
  "splitlines s = splitlines_from [] s"

text \<open>
  \<^verbatim>\<open>re.match('^\((.+)\)$', name)\<close> and its group: the name is an opening parenthesis, a
  non-empty text without newline, a closing parenthesis, and at most one final newline.
\<close>

definition comment_match :: "string \<Rightarrow> string option" where
  "comment_match name =
     (case name of
        [] \<Rightarrow> None
      | c # rest \<Rightarrow>
          if c \<noteq> CHR ''('' then None
          else
            (let body = (if rest \<noteq> [] \<and> last rest = CHR 0x0A then butlast rest else rest) in
             if body \<noteq> [] \<and> last body = CHR '')'' \<and> butlast body \<noteq> []
                \<and> CHR 0x0A \<notin> set (butlast body)
             then Some (butlast body) else None))"

text \<open>
  The truth value of \<^verbatim>\<open>conf.tool_change\<close> (an empty text is false).
\<close>

fun tool_change_set :: "tool_change \<Rightarrow> bool" where
  "tool_change_set (TC_flag b) = b"
| "tool_change_set (TC_gcode s) = (s \<noteq> [])"

definition append_line :: "conf \<Rightarrow> post \<Rightarrow> line \<Rightarrow> post" where
  "append_line cf st x = st\<lparr>gcode := Gcode_append cf (gcode st) x\<rparr>"

text \<open>
  The body of the loop of \<^verbatim>\<open>parseObject\<close> for one command of the path. \<open>cmd_text\<close> is
  FreeCAD's \<^verbatim>\<open>str\<close> of a \<^verbatim>\<open>Path.Command\<close>, used for \<^verbatim>\<open>message\<close> commands.
\<close>

definition parse_command ::
  "(command \<Rightarrow> string) \<Rightarrow> conf \<Rightarrow> post \<Rightarrow> pathobject \<Rightarrow> command \<Rightarrow> (error + post) option" where
  "parse_command cmd_text cf st obj cmd =
     (if Name cmd \<in> set (commands cf) then
        (let st1 = addCommand cf st (Name cmd) (Parameters cmd) (obj_ToolController obj) in
         if Name cmd \<in> set [''M3'', ''M03'', ''M4'', ''M04''] then
           (if spindle_wait cf > 0
            then Some (Inr (addCommand cf st1 ''G4'' [(''S'', of_int (spindle_wait cf))] None))
            else Some (Inr (addCommand cf st1 ''G4'' [] None)))
         else if Name cmd \<in> set [''M6'', ''M06''] \<and> tool_change_set (tool_change cf) then
           (let st2 = append_line cf st1 (Comment ''TOOL CHANGE'') in
            case tool_change cf of
              TC_gcode text \<Rightarrow>
                Some (Inr (foldl (\<lambda>s l. append_line cf s (Str l)) st2 (splitlines text)))
            | TC_flag b \<Rightarrow> Some (Inr (addCommand cf st2 (pause cf) [] None)))
         else Some (Inr st1))
      else if Name cmd \<in> set [''G98'', ''G99''] \<and> translate_drill_cycles cf then
        Some (Inr (st\<lparr>drillRetractMode := Str (Name cmd)\<rparr>))
      else if Name cmd \<in> set [''G81'', ''G82'', ''G83''] \<and> translate_drill_cycles cf then
        translateDrill cf st cmd (obj_ToolController obj)
      else if Name cmd = ''message'' then
        Some (Inr (append_line cf st (Comment (''message: '' @ cmd_text cmd))))
      else if comments cf \<and> comment_match (Name cmd) \<noteq> None then
        (case comment_match (Name cmd) of
           Some inner \<Rightarrow> Some (Inr (append_line cf st (Comment inner)))
         | None \<Rightarrow> Some (Inr st))
      else
        Some (Inr (st\<lparr>console := console st @ [(Warning, ''Command ignored: '' @ Name cmd)]\<rparr>)))"

text \<open>
  The \<^verbatim>\<open>for cmd in obj.Path.Commands\<close> loop; an exception or a loop that does not
  return ends it.
\<close>

fun parse_commands ::
  "(command \<Rightarrow> string) \<Rightarrow> conf \<Rightarrow> post \<Rightarrow> pathobject \<Rightarrow> command list \<Rightarrow> (error + post) option" where
  "parse_commands cmd_text cf st obj [] = Some (Inr st)"
| "parse_commands cmd_text cf st obj (cmd # rest) =
     (case parse_command cmd_text cf st obj cmd of
        None \<Rightarrow> None
      | Some (Inl e) \<Rightarrow> Some (Inl e)
      | Some (Inr st') \<Rightarrow> parse_commands cmd_text cf st' obj rest)"

text \<open>
  \<^verbatim>\<open>Postprocessor.parseObject\<close> for an object that has a path and is not a group.
\<close>

definition parseObject ::
  "(command \<Rightarrow> string) \<Rightarrow> conf \<Rightarrow> post \<Rightarrow> pathobject \<Rightarrow> (error + post) option" where
  "parseObject cmd_text cf st obj =
     parse_commands cmd_text cf
       (st\<lparr>console := console st @ [(Log, ''Processing object '' @ obj_Name obj)]\<rparr>)
       obj (obj_Commands obj)"

section \<open>Rendering\<close>

subsection \<open>Numbers as text\<close>

definition digit_char :: "nat \<Rightarrow> char" where
  "digit_char d = ''0123456789'' ! d"

fun decimal :: "nat \<Rightarrow> string" where
  "decimal n =
     (if 10 \<le> n then decimal (n div 10) @ [digit_char (n mod 10)] else [digit_char n])"

declare decimal.simps [simp del]

text \<open>\<^verbatim>\<open>str\<close> of an \<^verbatim>\<open>int\<close>.\<close>

definition str_int :: "int \<Rightarrow> string" where
  "str_int i = (if 0 \<le> i then decimal (nat i) else CHR ''-'' # decimal (nat (- i)))"

text \<open>Rounding to the nearest integer, ties to even, as float formatting rounds.\<close>

definition round_half_even :: "rat \<Rightarrow> int" where
  "round_half_even x =
     (let f = \<lfloor>x\<rfloor>; d = x - of_int f in
      if d < 1/2 then f else if d > 1/2 then f + 1 else if even f then f else f + 1)"

text \<open>
  The format \<^verbatim>\<open>f'{x:.{p}f}'\<close>: \<open>p\<close> digits after the point, no point when \<open>p\<close> is zero,
  \<^verbatim>\<open>ValueError\<close> when \<open>p\<close> is negative. An \<^verbatim>\<open>int\<close> is formatted as the float of the same
  value.
\<close>

definition fmt_f :: "int \<Rightarrow> rat \<Rightarrow> error + string" where
  "fmt_f p x =
     (if p < 0 then Inl ValueError
      else
        (let k = nat p;
             n = nat (round_half_even (\<bar>x\<bar> * 10 ^ k));
             frac = decimal (n mod 10 ^ k)
         in Inr ((if x < 0 then ''-'' else [])
                 @ decimal (n div 10 ^ k)
                 @ (if k = 0 then []
                    else ''.'' @ replicate (k - length frac) (CHR ''0'') @ frac))))"

fun join :: "string \<Rightarrow> string list \<Rightarrow> string" where
  "join sep [] = []"
| "join sep [x] = x"
| "join sep (x # y # ys) = x @ sep @ join sep (y # ys)"

subsection \<open>Spindle speed\<close>

text \<open>\<^verbatim>\<open>int(x)\<close> on a float truncates toward zero; \<^verbatim>\<open>a // b\<close> is the floor of the quotient.\<close>

definition py_int :: "rat \<Rightarrow> int" where
  "py_int x = (if x \<ge> 0 then \<lfloor>x\<rfloor> else \<lceil>x\<rceil>)"

definition floordiv :: "rat \<Rightarrow> rat \<Rightarrow> error + rat" where
  "floordiv a b = (if b = 0 then Inl ZeroDivisionError else Inr (of_int \<lfloor>a / b\<rfloor>))"

text \<open>
  \<^verbatim>\<open>speedAsPercent\<close>. The two module constants \<^verbatim>\<open>MIN_SPINDLE_SPEED\<close> and
  \<^verbatim>\<open>MAX_SPINDLE_SPEED\<close> that it reads are its first argument; the module sets them to
  6000 and 12000.
\<close>

definition speedAsPercent :: "rat \<times> rat \<Rightarrow> rat \<Rightarrow> error + int" where
  "speedAsPercent rng speed =
     (case rng of (MIN_SPINDLE_SPEED, MAX_SPINDLE_SPEED) \<Rightarrow>
        (case floordiv (max (min speed MAX_SPINDLE_SPEED) MIN_SPINDLE_SPEED * 100) MAX_SPINDLE_SPEED of
           Inl e \<Rightarrow> Inl e
         | Inr q \<Rightarrow> Inr (py_int q)))"

definition SPINDLE_SPEEDS :: "rat \<times> rat" where
  "SPINDLE_SPEEDS = (6000, 12000)"

subsection \<open>A command as text\<close>

text \<open>
  FreeCAD's part: the unit conversions of \<^verbatim>\<open>FreeCAD.Units.Quantity\<close> behind
  \<^verbatim>\<open>convertPosition\<close> and \<^verbatim>\<open>convertSpeed\<close>, and \<^verbatim>\<open>str\<close> of a float.
\<close>

record freecad =
  convertPosition :: "rat \<Rightarrow> string \<Rightarrow> rat"
  convertSpeed :: "rat \<Rightarrow> string \<Rightarrow> rat"
  float_str :: "rat \<Rightarrow> string"

definition GCODE_PARAMETERS :: "string list" where
  "GCODE_PARAMETERS =
     [''X'', ''Y'', ''Z'', ''A'', ''B'', ''C'', ''I'', ''J'', ''F'', ''S'', ''T'', ''Q'', ''R'',
      ''L'', ''H'', ''D'', ''P'', ''O'']"

text \<open>
  What one parameter letter adds to the line of \<^verbatim>\<open>Command.__str__\<close>: no token or one,
  and the error printed for a feed rate that is not positive.
\<close>

definition param_token ::
  "freecad \<Rightarrow> rat \<times> rat \<Rightarrow> conf \<Rightarrow> command \<Rightarrow> string \<Rightarrow>
   error + (string list \<times> (level \<times> string) list)" where
  "param_token fc rng cf c param =
     (case dict_get (Parameters c) param of
        None \<Rightarrow> Inr ([], [])
      | Some v \<Rightarrow>
          if param \<in> set [''X'', ''Y'', ''Z'', ''U'', ''V'', ''W'', ''I'', ''J'', ''K'', ''R'', ''Q''] then
            (case fmt_f (precision cf) (convertPosition fc v (units cf)) of
               Inl e \<Rightarrow> Inl e
             | Inr t \<Rightarrow> Inr ([param @ t], []))
          else if param = ''F'' then
            (let speed = convertSpeed fc v (units cf) in
             case fmt_f (precision cf) speed of
               Inl e \<Rightarrow> Inl e
             | Inr t \<Rightarrow>
                 Inr ([param @ t],
                      if speed \<le> 0
                      then [(Error, Name c @ '': negative or null speed provided ('' @ float_str fc speed @ '')'')]
                      else []))
          else if param = ''S'' then
            (if Name c \<in> set [''M3'', ''M03'', ''M4'', ''M04''] then
               (case speedAsPercent rng v of
                  Inl e \<Rightarrow> Inl e
                | Inr pct \<Rightarrow>
                   (case fmt_f (precision cf) (of_int pct) of
                      Inl e \<Rightarrow> Inl e
                    | Inr t \<Rightarrow> Inr ([''P'' @ t], [])))
             else if Name c \<in> set [''G4'', ''G04''] then
               (case fmt_f (precision cf) v of
                  Inl e \<Rightarrow> Inl e
                | Inr t \<Rightarrow> Inr ([param @ t], []))
             else
               (case fmt_f (precision cf) (convertSpeed fc v (units cf)) of
                  Inl e \<Rightarrow> Inl e
                | Inr t \<Rightarrow> Inr ([param @ t], [])))
          else if param \<in> set [''T'', ''H'', ''D'', ''P'', ''L''] then
            Inr ([param @ float_str fc v], [])
          else if param \<in> set [''A'', ''B'', ''C''] then
            Inr ([param @ float_str fc v], [])
          else Inr ([], []))"

fun collect_tokens ::
  "freecad \<Rightarrow> rat \<times> rat \<Rightarrow> conf \<Rightarrow> command \<Rightarrow> string list \<Rightarrow>
   error + (string list \<times> (level \<times> string) list)" where
  "collect_tokens fc rng cf c [] = Inr ([], [])"
| "collect_tokens fc rng cf c (param # rest) =
     (case param_token fc rng cf c param of
        Inl e \<Rightarrow> Inl e
      | Inr (ts, ms) \<Rightarrow>
         (case collect_tokens fc rng cf c rest of
            Inl e \<Rightarrow> Inl e
          | Inr (ts', ms') \<Rightarrow> Inr (ts @ ts', ms @ ms')))"

text \<open>\<^verbatim>\<open>Command.__str__\<close>: the name and the tokens, joined by the spacer.\<close>

definition Command_str ::
  "freecad \<Rightarrow> rat \<times> rat \<Rightarrow> conf \<Rightarrow> command \<Rightarrow> error + (string \<times> (level \<times> string) list)" where
  "Command_str fc rng cf c =
     (case collect_tokens fc rng cf c GCODE_PARAMETERS of
        Inl e \<Rightarrow> Inl e
      | Inr (ts, ms) \<Rightarrow> Inr (join (spacer cf) (Name c # ts), ms))"

subsection \<open>The stream as text\<close>

text \<open>\<^verbatim>\<open>str(line)\<close>; a comment or header is wrapped in the comment symbols.\<close>

fun line_str ::
  "freecad \<Rightarrow> rat \<times> rat \<Rightarrow> conf \<Rightarrow> line \<Rightarrow> error + (string \<times> (level \<times> string) list)" where
  "line_str fc rng cf (Cmd c) = Command_str fc rng cf c"
| "line_str fc rng cf (Str s) = Inr (s, [])"
| "line_str fc rng cf (Comment s) = Inr (fst (comment_symbols cf) @ s @ snd (comment_symbols cf), [])"
| "line_str fc rng cf (Header s) = Inr (fst (comment_symbols cf) @ s @ snd (comment_symbols cf), [])"

text \<open>\<^verbatim>\<open>type(line) in self.types\<close> and \<^verbatim>\<open>type(line) in (Command, str)\<close>.\<close>

fun in_types :: "conf \<Rightarrow> line \<Rightarrow> bool" where
  "in_types cf (Cmd c) = True"
| "in_types cf (Str s) = True"
| "in_types cf (Header s) = header cf"
| "in_types cf (Comment s) = comments cf"

fun is_Command_or_str :: "line \<Rightarrow> bool" where
  "is_Command_or_str (Cmd c) = True"
| "is_Command_or_str (Str s) = True"
| "is_Command_or_str other = False"

text \<open>The loop of \<^verbatim>\<open>Gcode.__str__\<close>, with its counter \<^verbatim>\<open>nbr\<close>.\<close>

fun Gcode_lines ::
  "freecad \<Rightarrow> rat \<times> rat \<Rightarrow> conf \<Rightarrow> int \<Rightarrow> line list \<Rightarrow>
   error + (string list \<times> (level \<times> string) list)" where
  "Gcode_lines fc rng cf nbr [] = Inr ([], [])"
| "Gcode_lines fc rng cf nbr (x # xs) =
     (if in_types cf x then
        (case line_str fc rng cf x of
           Inl e \<Rightarrow> Inl e
         | Inr (t, ms) \<Rightarrow>
            if line_numbers cf \<and> is_Command_or_str x then
              (case Gcode_lines fc rng cf (nbr + 1) xs of
                 Inl e \<Rightarrow> Inl e
               | Inr (ts, ms') \<Rightarrow>
                   Inr ((''N'' @ str_int (line_start cf + nbr * line_increment cf)
                         @ spacer cf @ t) # ts, ms @ ms'))
            else
              (case Gcode_lines fc rng cf nbr xs of
                 Inl e \<Rightarrow> Inl e
               | Inr (ts, ms') \<Rightarrow> Inr (t # ts, ms @ ms')))
      else Gcode_lines fc rng cf nbr xs)"

definition Gcode_str ::
  "freecad \<Rightarrow> rat \<times> rat \<Rightarrow> conf \<Rightarrow> line list \<Rightarrow> error + (string \<times> (level \<times> string) list)" where
  "Gcode_str fc rng cf g =
     (case Gcode_lines fc rng cf 0 g of
        Inl e \<Rightarrow> Inl e
      | Inr (ts, ms) \<Rightarrow> Inr (join [CHR 0x0A] ts, ms))"

section \<open>The boundary check\<close>

text \<open>
  The module's table \<^verbatim>\<open>BOUNDARIES\<close>: the travel of each machine on X, Y and Z.
  \<^verbatim>\<open>checkBoundaries\<close> takes the table as an argument.
\<close>

definition BOUNDARIES :: "(string \<times> rat list) list" where
  "BOUNDARIES =
     [(''original'', [90, 90, 50]),
      (''original_z_extension'', [90, 90, 146]),
      (''A150'', [160, 160, 90]),
      (''A250'', [230, 250, 180]), (''A250T'', [230, 250, 180]),
      (''A350'', [320, 350, 275]), (''A350T'', [320, 350, 275])]"

text \<open>
  The float arithmetic of the check. A float is the rational it denotes, and \<^verbatim>\<open>max\<close>,
  \<^verbatim>\<open>min\<close>, \<^verbatim>\<open>abs\<close> and \<^verbatim>\<open>>\<close> are exact on floats; \<^verbatim>\<open>a - b\<close> and \<^verbatim>\<open>a + b\<close> round their result
  to a float. The two rounding operations are not fixed here: \<^verbatim>\<open>checkBoundaries\<close> takes
  them as an argument, and what is proved of it holds for every rounding.
\<close>

record floats =
  float_sub :: "rat \<Rightarrow> rat \<Rightarrow> rat"
  float_add :: "rat \<Rightarrow> rat \<Rightarrow> rat"

text \<open>
  The operations without rounding. On values whose sum and difference are floats again,
  such as integers of moderate size, they are the operations of Python.
\<close>

definition unrounded :: floats where
  "unrounded = \<lparr>float_sub = (\<lambda>a b. a - b), float_add = (\<lambda>a b. a + b)\<rparr>"

text \<open>
  The local state of the replay: the flag \<^verbatim>\<open>relative\<close>, and for each axis the current
  \<^verbatim>\<open>position\<close> and the pair \<^verbatim>\<open>boundaries[axis]\<close> (maximum first, minimum second).
\<close>

record replay =
  relative :: bool
  position :: "(string \<times> rat) list"
  boundaries :: "(string \<times> rat \<times> rat) list"

definition replay_init :: replay where
  "replay_init =
     \<lparr>relative = False,
      position = [(''X'', 0), (''Y'', 0), (''Z'', 0)],
      boundaries = [(''X'', (0, 0)), (''Y'', (0, 0)), (''Z'', (0, 0))]\<rparr>"

text \<open>The body of \<^verbatim>\<open>for axis in boundaries.keys()\<close> for one axis.\<close>

definition replay_axis :: "floats \<Rightarrow> command \<Rightarrow> replay \<Rightarrow> string \<Rightarrow> replay" where
  "replay_axis fl cmd r axis =
     (case dict_get (Parameters cmd) axis of
        None \<Rightarrow> r
      | Some v \<Rightarrow>
         (let old = the (map_of (position r) axis);
              p = (if relative r then float_add fl old v else v);
              b = the (map_of (boundaries r) axis)
          in r\<lparr>position := AList.update axis p (position r),
                boundaries := AList.update axis (max (fst b) p, min (snd b) p) (boundaries r)\<rparr>))"

text \<open>
  The body of \<^verbatim>\<open>for cmd in self.gcode\<close>. Both G90 and G91 clear the flag, and only a
  command whose name is \<^verbatim>\<open>G0\<close> or \<^verbatim>\<open>G1\<close>, written so, moves the position.
\<close>

fun replay_line :: "floats \<Rightarrow> replay \<Rightarrow> line \<Rightarrow> replay" where
  "replay_line fl r (Cmd cmd) =
     (if Name cmd = ''G90'' then r\<lparr>relative := False\<rparr>
      else if Name cmd = ''G91'' then r\<lparr>relative := False\<rparr>
      else if Name cmd \<in> set [''G0'', ''G1''] then
        foldl (replay_axis fl cmd) r (map fst (boundaries r))
      else r)"
| "replay_line fl r other = r"

text \<open>
  The closing loop over \<^verbatim>\<open>zip(boundaries.keys(), BOUNDARIES[machine])\<close>: one warning for
  each axis for which \<^verbatim>\<open>abs(boundaries[axis][0] - boundaries[axis][1]) > limit\<close>.
\<close>

definition axis_warning :: "string \<Rightarrow> level \<times> string" where
  "axis_warning axis = (Warning, ''Boundary check: job exceeds machine limit on '' @ axis @ '' axis'')"

definition limit_warnings :: "floats \<Rightarrow> replay \<Rightarrow> rat list \<Rightarrow> (level \<times> string) list" where
  "limit_warnings fl r limits =
     concat (map (\<lambda>((axis, b), limit).
                    if \<bar>float_sub fl (fst b) (snd b)\<bar> > limit then [axis_warning axis] else [])
                 (zip (boundaries r) limits))"

text \<open>
  \<^verbatim>\<open>Postprocessor.checkBoundaries\<close>. It returns \<^verbatim>\<open>False\<close> when the machine is not in
  the table and \<^verbatim>\<open>None\<close> otherwise; only the console changes.
\<close>

definition checkBoundaries ::
  "floats \<Rightarrow> (string \<times> rat list) list \<Rightarrow> conf \<Rightarrow> post \<Rightarrow> post \<times> bool option" where
  "checkBoundaries fl tbl cf st =
     (let st1 = st\<lparr>console := console st @ [(Log, ''Boundaries check/n'')]\<rparr> in
      case (case machine cf of None \<Rightarrow> None | Some m \<Rightarrow> map_of tbl m) of
        None \<Rightarrow>
          (st1\<lparr>console := console st1 @ [(Error, ''Boundary check failed, no valid machine name supplied'')]\<rparr>,
           Some False)
      | Some limits \<Rightarrow>
          (st1\<lparr>console := console st1 @ limit_warnings fl (foldl (replay_line fl) replay_init (gcode st1)) limits\<rparr>,
           None))"

text \<open>
  The end of \<^verbatim>\<open>Postprocessor.export\<close>: the optional boundary check, then the text of
  the stream that is written to the file.
\<close>

definition export_data ::
  "floats \<Rightarrow> (string \<times> rat list) list \<Rightarrow> freecad \<Rightarrow> rat \<times> rat \<Rightarrow> conf \<Rightarrow> post \<Rightarrow>
   error + (string \<times> post)" where
  "export_data fl tbl fc rng cf st =
     (let st1 = (if boundaries_check cf then fst (checkBoundaries fl tbl cf st) else st) in
      case Gcode_str fc rng cf (gcode st1) of
        Inl e \<Rightarrow> Inl e
      | Inr (data, ms) \<Rightarrow> Inr (data, st1\<lparr>console := console st1 @ ms\<rparr>))"

section \<open>Notions used in the statements\<close>

text \<open>A line that is a command carrying an X or a Y parameter.\<close>

fun carries_XY :: "line \<Rightarrow> bool" where
  "carries_XY (Cmd c) = (dict_in ''X'' (Parameters c) \<or> dict_in ''Y'' (Parameters c))"
| "carries_XY other = False"

text \<open>The lines that were added to the stream between two states.\<close>

definition new_lines :: "post \<Rightarrow> post \<Rightarrow> line list" where
  "new_lines st st' = drop (length (gcode st)) (gcode st')"

text \<open>
  A step that only adds lines without X and Y to the end of the stream and keeps the job.
\<close>

definition adds_plain :: "post \<Rightarrow> post \<Rightarrow> bool" where
  "adds_plain st st' =
     (gcode st = take (length (gcode st)) (gcode st')
      \<and> filter carries_XY (new_lines st st') = []
      \<and> job st' = job st)"

text \<open>Clamping a value into a range, as the specification words it.\<close>

definition clamp :: "rat \<Rightarrow> rat \<Rightarrow> rat \<Rightarrow> rat" where
  "clamp s lo hi = (if s < lo then lo else if hi < s then hi else s)"

text \<open>The text of a non-negative integer with \<open>p\<close> decimals, all zero.\<close>

definition int_text :: "int \<Rightarrow> int \<Rightarrow> string" where
  "int_text p n = decimal (nat n) @ (if p = 0 then [] else ''.'' @ replicate (nat p) (CHR ''0''))"

text \<open>
  One axis of the replay on its own: the triple of its position, maximum and minimum,
  and what a line that gives the axis the value \<open>v\<close> (or no value) makes of it.
\<close>

type_synonym track = "rat \<times> rat \<times> rat"

definition track_step :: "track \<Rightarrow> rat option \<Rightarrow> track" where
  "track_step t v =
     (case v of None \<Rightarrow> t | Some x \<Rightarrow> (x, max (fst (snd t)) x, min (snd (snd t)) x))"

definition replay_of :: "track \<Rightarrow> track \<Rightarrow> track \<Rightarrow> replay" where
  "replay_of tx ty tz =
     \<lparr>relative = False,
      position = [(''X'', fst tx), (''Y'', fst ty), (''Z'', fst tz)],
      boundaries = [(''X'', snd tx), (''Y'', snd ty), (''Z'', snd tz)]\<rparr>"

text \<open>The depth of a feed move: the Z of a \<^verbatim>\<open>G1\<close> command.\<close>

fun feed_depth :: "line \<Rightarrow> rat option" where
  "feed_depth (Cmd c) = (if Name c = ''G1'' then dict_get (Parameters c) ''Z'' else None)"
| "feed_depth other = None"

definition feed_depths :: "line list \<Rightarrow> rat list" where
  "feed_depths ls = List.map_filter feed_depth ls"

text \<open>A stream whose last line is a rapid move \<^verbatim>\<open>G0\<close>.\<close>

definition ends_rapid :: "line list \<Rightarrow> bool" where
  "ends_rapid g = (g \<noteq> [] \<and> (case last g of Cmd c \<Rightarrow> Name c = ''G0'' | _ \<Rightarrow> False))"

text \<open>
  Structural equality of a line and an instruction, as the specification words it: the
  line is a command with the same mnemonic and the same value, or none, under every
  parameter letter. The copies of an instruction in a stream are the lines equal to it.
\<close>

definition same_instruction :: "line \<Rightarrow> command \<Rightarrow> bool" where
  "same_instruction l x =
     (\<exists>c. l = Cmd c \<and> Name c = Name x \<and> map_of (Parameters c) = map_of (Parameters x))"

definition copies :: "command \<Rightarrow> line list \<Rightarrow> nat" where
  "copies x g = length (filter (\<lambda>l. same_instruction l x) g)"

text \<open>
  The current position on an axis after a stream, as the specification words the
  backward scan: the value of the axis in the last command, among all the lines, that
  carries it, and 0 when no command carries it.
\<close>

fun carried :: "string \<Rightarrow> line \<Rightarrow> rat option" where
  "carried axis (Cmd c) = dict_get (Parameters c) axis"
| "carried axis other = None"

definition current_position :: "line list \<Rightarrow> string \<Rightarrow> rat" where
  "current_position g axis =
     (case List.map_filter (carried axis) (rev g) of [] \<Rightarrow> 0 | v # vs \<Rightarrow> v)"

text \<open>
  The motion instructions of the specification: the rapid and linear moves and the arcs,
  under both spellings that \<^verbatim>\<open>GCODE_COMMANDS\<close> allows. The positions of an axis are the
  values that the motion instructions of a stream give it, in order, and its span is
  the largest position minus the smallest.
\<close>

definition MOTION :: "string list" where
  "MOTION = [''G0'', ''G00'', ''G1'', ''G01'', ''G2'', ''G02'', ''G3'', ''G03'']"

fun motion_value :: "string \<Rightarrow> line \<Rightarrow> rat option" where
  "motion_value axis (Cmd c) =
     (if Name c \<in> set MOTION then dict_get (Parameters c) axis else None)"
| "motion_value axis other = None"

definition positions :: "string \<Rightarrow> line list \<Rightarrow> rat list" where
  "positions axis g = List.map_filter (motion_value axis) g"

definition span :: "string \<Rightarrow> line list \<Rightarrow> rat" where
  "span axis g = Max (set (positions axis g)) - Min (set (positions axis g))"

text \<open>
  The extent of an axis with the origin counted among the positions visited, the
  difference being the float subtraction.
\<close>

definition visited :: "string \<Rightarrow> line list \<Rightarrow> rat list" where
  "visited axis g = 0 # positions axis g"

definition extent :: "floats \<Rightarrow> string \<Rightarrow> line list \<Rightarrow> rat" where
  "extent fl axis g = \<bar>float_sub fl (Max (set (visited axis g))) (Min (set (visited axis g)))\<bar>"

text \<open>
  A stream whose motion instructions are all spelled \<^verbatim>\<open>G0\<close> or \<^verbatim>\<open>G1\<close>: it holds no
  command under the other six names.
\<close>

fun plain_motion :: "line \<Rightarrow> bool" where
  "plain_motion (Cmd c) = (Name c \<notin> set [''G00'', ''G01'', ''G2'', ''G02'', ''G3'', ''G03''])"
| "plain_motion other = True"

definition only_G0_G1 :: "line list \<Rightarrow> bool" where
  "only_G0_G1 g = list_all plain_motion g"

text \<open>What the replay reads from a line for an axis.\<close>

fun axis_value :: "string \<Rightarrow> line \<Rightarrow> rat option" where
  "axis_value axis (Cmd c) =
     (if Name c = ''G0'' \<or> Name c = ''G1'' then dict_get (Parameters c) axis else None)"
| "axis_value axis other = None"

section \<open>Equality of lines and the stream\<close>

lemma dict_eq_iff: "dict_eq p q \<longleftrightarrow> map_of p = map_of q"
proof
  assume h: "dict_eq p q"
  show "map_of p = map_of q"
  proof
    fix k
    show "map_of p k = map_of q k"
    proof (cases "k \<in> set (map fst p) \<union> set (map fst q)")
      case True
      with h show ?thesis by (auto simp add: dict_eq_def list_all_iff)
    next
      case False
      then have "map_of p k = None" "map_of q k = None"
        by (simp_all add: map_of_eq_None_iff)
      then show ?thesis by simp
    qed
  qed
next
  assume "map_of p = map_of q"
  then show "dict_eq p q" by (simp add: dict_eq_def list_all_iff)
qed

lemma dict_eq_refl: "dict_eq p p"
  by (simp add: dict_eq_iff)

lemma Command_eq_try_eq: "Command_eq_try c other = Inr (Command_eq c other)"
  by (cases other) (simp_all add: Command_eq_try_def Command_eq_body_def)

lemma line_eq_try_eq: "line_eq_try a b = Inr (line_eq a b)"
  by (cases a; cases b) (simp_all add: Command_eq_try_eq str_eq_try_def str_eq_def)

text \<open>
  Claim C10. \<^verbatim>\<open>Command.__eq__\<close> never raises: with the attribute accesses and the
  \<^verbatim>\<open>except AttributeError\<close> handler written out, it returns a boolean for every operand,
  and \<open>False\<close> for a plain string, a comment or a header. The operator \<^verbatim>\<open>==\<close> on two
  lines of the stream, which \<^verbatim>\<open>Gcode.append\<close> uses, returns a boolean in every case.
\<close>

theorem Command_eq_total:
  "Command_eq_try c other = Inr (Command_eq c other)
   \<and> Command_eq_try c (Str s) = Inr False
   \<and> Command_eq_try c (Comment s) = Inr False
   \<and> Command_eq_try c (Header s) = Inr False
   \<and> line_eq_try a b = Inr (line_eq a b)
   \<and> line_eq_try (Str s) (Cmd c) = Inr False
   \<and> line_eq_try (Comment s) (Cmd c) = Inr False"
  by (simp add: Command_eq_try_eq line_eq_try_eq del: line_eq_try.simps)

theorem Command_eq_total_witness:
  "Command_eq_try \<lparr>Name = ''G0'', Parameters = [(''Z'', 5)]\<rparr> (Cmd \<lparr>Name = ''G0'', Parameters = [(''Z'', 5)]\<rparr>) = Inr True
   \<and> Command_eq_try \<lparr>Name = ''G0'', Parameters = [(''Z'', 5)]\<rparr> (Cmd \<lparr>Name = ''G0'', Parameters = [(''Z'', 5), (''F'', 1)]\<rparr>) = Inr False
   \<and> Command_eq_try \<lparr>Name = ''G98'', Parameters = []\<rparr> (Str ''G98'') = Inr False
   \<and> line_eq_try (Comment ''G90'') (Str ''G90'') = Inr True"
  using Command_eq_total [of "\<lparr>Name = ''G0'', Parameters = [(''Z'', 5)]\<rparr>" "Cmd \<lparr>Name = ''G0'', Parameters = [(''Z'', 5)]\<rparr>" "''G98''" "Comment ''G90''" "Str ''G90''"]
    Command_eq_total [of "\<lparr>Name = ''G0'', Parameters = [(''Z'', 5)]\<rparr>" "Cmd \<lparr>Name = ''G0'', Parameters = [(''Z'', 5), (''F'', 1)]\<rparr>" "''G98''" "Comment ''G90''" "Str ''G90''"]
    Command_eq_total [of "\<lparr>Name = ''G98'', Parameters = []\<rparr>" "Str ''G98''" "''G98''" "Comment ''G90''" "Str ''G90''"]
  by (simp add: dict_eq_def del: line_eq_try.simps)

lemma line_eq_same: "line_eq l (Cmd x) = same_instruction l x"
  by (cases l) (auto simp add: same_instruction_def dict_eq_iff)

lemma same_instruction_refl: "same_instruction (Cmd x) x"
  by (simp add: same_instruction_def)

lemma same_instruction_Cmd:
  "same_instruction (Cmd c) x = (Name c = Name x \<and> dict_eq (Parameters c) (Parameters x))"
  by (simp add: same_instruction_def dict_eq_iff)

lemma copies_snoc: "copies x (g @ [Cmd x]) = copies x g + 1"
  by (simp add: copies_def same_instruction_refl)

lemma Gcode_append_same:
  "Gcode_append cf g (Cmd x) =
     (if remove_duplicates cf \<and> g \<noteq> [] \<and> same_instruction (last g) x then g else g @ [Cmd x])"
  by (simp add: Gcode_append_def is_duplicate_def line_eq_same)

text \<open>
  Claim C5. With duplicates removed, appending an instruction \<open>x\<close> twice in a row gives
  the same stream as appending it once, and that stream is pinned without reference to
  the comparison of the code: it is the old stream when the old stream ends with a
  command of the same mnemonic and the same parameter map as \<open>x\<close>, and the old stream
  followed by one \<open>x\<close> in every other case (a last line that is a command differing in
  its mnemonic or in some parameter, a text, a comment, a header, or no line at all).
  So the stream ends with a line equal to \<open>x\<close>, and the two appends raise the number of
  lines equal to \<open>x\<close> by one, or by none when the old stream ended with one. With
  duplicates kept, the two appends add two copies.
\<close>

theorem append_twice:
  "(remove_duplicates cf \<longrightarrow>
      Gcode_append cf (Gcode_append cf g (Cmd x)) (Cmd x) = Gcode_append cf g (Cmd x)
      \<and> Gcode_append cf (Gcode_append cf g (Cmd x)) (Cmd x) =
          (if g \<noteq> [] \<and> same_instruction (last g) x then g else g @ [Cmd x])
      \<and> same_instruction (last (Gcode_append cf (Gcode_append cf g (Cmd x)) (Cmd x))) x
      \<and> copies x (Gcode_append cf (Gcode_append cf g (Cmd x)) (Cmd x)) =
          (if g \<noteq> [] \<and> same_instruction (last g) x then copies x g else copies x g + 1))
   \<and> (\<not> remove_duplicates cf \<longrightarrow>
      Gcode_append cf (Gcode_append cf g (Cmd x)) (Cmd x) = g @ [Cmd x, Cmd x]
      \<and> copies x (Gcode_append cf (Gcode_append cf g (Cmd x)) (Cmd x)) = copies x g + 2)"
  by (simp add: Gcode_append_same same_instruction_refl copies_snoc)
     (simp add: copies_def same_instruction_refl)

theorem append_twice_witness:
  "remove_duplicates default_conf
   \<and> Gcode_append default_conf (Gcode_append default_conf [Comment ''c''] (Cmd \<lparr>Name = ''G0'', Parameters = [(''Z'', 5)]\<rparr>))
       (Cmd \<lparr>Name = ''G0'', Parameters = [(''Z'', 5)]\<rparr>)
     = [Comment ''c'', Cmd \<lparr>Name = ''G0'', Parameters = [(''Z'', 5)]\<rparr>]
   \<and> Gcode_append default_conf (Gcode_append default_conf [Cmd \<lparr>Name = ''G0'', Parameters = [(''Z'', 5)]\<rparr>] (Cmd \<lparr>Name = ''G1'', Parameters = [(''Z'', 5)]\<rparr>))
       (Cmd \<lparr>Name = ''G1'', Parameters = [(''Z'', 5)]\<rparr>)
     = [Cmd \<lparr>Name = ''G0'', Parameters = [(''Z'', 5)]\<rparr>, Cmd \<lparr>Name = ''G1'', Parameters = [(''Z'', 5)]\<rparr>]
   \<and> Gcode_append default_conf (Gcode_append default_conf [Cmd \<lparr>Name = ''G0'', Parameters = [(''Z'', 5)]\<rparr>] (Cmd \<lparr>Name = ''G0'', Parameters = [(''Z'', 6)]\<rparr>))
       (Cmd \<lparr>Name = ''G0'', Parameters = [(''Z'', 6)]\<rparr>)
     = [Cmd \<lparr>Name = ''G0'', Parameters = [(''Z'', 5)]\<rparr>, Cmd \<lparr>Name = ''G0'', Parameters = [(''Z'', 6)]\<rparr>]
   \<and> Gcode_append default_conf (Gcode_append default_conf [Cmd \<lparr>Name = ''G0'', Parameters = [(''X'', 1), (''Y'', 2)]\<rparr>] (Cmd \<lparr>Name = ''G0'', Parameters = [(''Y'', 2), (''X'', 1)]\<rparr>))
       (Cmd \<lparr>Name = ''G0'', Parameters = [(''Y'', 2), (''X'', 1)]\<rparr>)
     = [Cmd \<lparr>Name = ''G0'', Parameters = [(''X'', 1), (''Y'', 2)]\<rparr>]
   \<and> copies \<lparr>Name = ''G0'', Parameters = [(''Z'', 5)]\<rparr>
        (Gcode_append default_conf (Gcode_append default_conf [Comment ''c''] (Cmd \<lparr>Name = ''G0'', Parameters = [(''Z'', 5)]\<rparr>))
       (Cmd \<lparr>Name = ''G0'', Parameters = [(''Z'', 5)]\<rparr>)) = 1
   \<and> \<not> remove_duplicates (default_conf\<lparr>remove_duplicates := False\<rparr>)
   \<and> Gcode_append (default_conf\<lparr>remove_duplicates := False\<rparr>)
        (Gcode_append (default_conf\<lparr>remove_duplicates := False\<rparr>) [Comment ''c''] (Cmd \<lparr>Name = ''G0'', Parameters = [(''Z'', 5)]\<rparr>))
        (Cmd \<lparr>Name = ''G0'', Parameters = [(''Z'', 5)]\<rparr>)
     = [Comment ''c'', Cmd \<lparr>Name = ''G0'', Parameters = [(''Z'', 5)]\<rparr>, Cmd \<lparr>Name = ''G0'', Parameters = [(''Z'', 5)]\<rparr>]
   \<and> copies \<lparr>Name = ''G0'', Parameters = [(''Z'', 5)]\<rparr>
        (Gcode_append (default_conf\<lparr>remove_duplicates := False\<rparr>)
        (Gcode_append (default_conf\<lparr>remove_duplicates := False\<rparr>) [Comment ''c''] (Cmd \<lparr>Name = ''G0'', Parameters = [(''Z'', 5)]\<rparr>))
        (Cmd \<lparr>Name = ''G0'', Parameters = [(''Z'', 5)]\<rparr>)) = 2"
proof -
  let ?off = "default_conf\<lparr>remove_duplicates := False\<rparr>"
  let ?z5 = "\<lparr>Name = ''G0'', Parameters = [(''Z'', 5)]\<rparr>"
  have on: "remove_duplicates default_conf" by (simp add: default_conf_def)
  have off: "\<not> remove_duplicates ?off" by simp
  have s1: "\<not> same_instruction (Comment ''c'') ?z5"
    and s2: "\<not> same_instruction (Cmd ?z5) \<lparr>Name = ''G1'', Parameters = [(''Z'', 5)]\<rparr>"
    and s4: "same_instruction (Cmd \<lparr>Name = ''G0'', Parameters = [(''X'', 1), (''Y'', 2)]\<rparr>) \<lparr>Name = ''G0'', Parameters = [(''Y'', 2), (''X'', 1)]\<rparr>"
    and s3: "\<not> same_instruction (Cmd ?z5) \<lparr>Name = ''G0'', Parameters = [(''Z'', 6)]\<rparr>"
    by (simp_all add: same_instruction_Cmd dict_eq_def) (simp add: same_instruction_def)
  have c0: "copies ?z5 [Comment ''c''] = 0" by (simp add: copies_def s1)
  note A = append_twice [of default_conf "[Comment ''c'']" ?z5, THEN conjunct1, THEN mp, OF on]
  note B = append_twice [of default_conf "[Cmd ?z5]" "\<lparr>Name = ''G1'', Parameters = [(''Z'', 5)]\<rparr>",
      THEN conjunct1, THEN mp, OF on]
  note C = append_twice [of default_conf "[Cmd ?z5]" "\<lparr>Name = ''G0'', Parameters = [(''Z'', 6)]\<rparr>",
      THEN conjunct1, THEN mp, OF on]
  note D = append_twice [of default_conf "[Cmd \<lparr>Name = ''G0'', Parameters = [(''X'', 1), (''Y'', 2)]\<rparr>]"
      "\<lparr>Name = ''G0'', Parameters = [(''Y'', 2), (''X'', 1)]\<rparr>", THEN conjunct1, THEN mp, OF on]
  note E = append_twice [of ?off "[Comment ''c'']" ?z5, THEN conjunct2, THEN mp, OF off]
  have a: "Gcode_append default_conf (Gcode_append default_conf [Comment ''c''] (Cmd ?z5)) (Cmd ?z5)
      = [Comment ''c'', Cmd ?z5]"
    using A [THEN conjunct2, THEN conjunct1] by (simp add: s1)
  have b: "Gcode_append default_conf (Gcode_append default_conf [Cmd ?z5] (Cmd \<lparr>Name = ''G1'', Parameters = [(''Z'', 5)]\<rparr>))
       (Cmd \<lparr>Name = ''G1'', Parameters = [(''Z'', 5)]\<rparr>)
     = [Cmd ?z5, Cmd \<lparr>Name = ''G1'', Parameters = [(''Z'', 5)]\<rparr>]"
    using B [THEN conjunct2, THEN conjunct1] by (simp add: s2)
  have c: "Gcode_append default_conf (Gcode_append default_conf [Cmd ?z5] (Cmd \<lparr>Name = ''G0'', Parameters = [(''Z'', 6)]\<rparr>))
       (Cmd \<lparr>Name = ''G0'', Parameters = [(''Z'', 6)]\<rparr>)
     = [Cmd ?z5, Cmd \<lparr>Name = ''G0'', Parameters = [(''Z'', 6)]\<rparr>]"
    using C [THEN conjunct2, THEN conjunct1] by (simp add: s3)
  have d: "Gcode_append default_conf (Gcode_append default_conf [Cmd \<lparr>Name = ''G0'', Parameters = [(''X'', 1), (''Y'', 2)]\<rparr>] (Cmd \<lparr>Name = ''G0'', Parameters = [(''Y'', 2), (''X'', 1)]\<rparr>))
       (Cmd \<lparr>Name = ''G0'', Parameters = [(''Y'', 2), (''X'', 1)]\<rparr>)
     = [Cmd \<lparr>Name = ''G0'', Parameters = [(''X'', 1), (''Y'', 2)]\<rparr>]"
    using D [THEN conjunct2, THEN conjunct1] by (simp add: s4)
  have a1: "copies ?z5 (Gcode_append default_conf (Gcode_append default_conf [Comment ''c''] (Cmd ?z5)) (Cmd ?z5)) = 1"
    using A [THEN conjunct2, THEN conjunct2, THEN conjunct2] by (simp add: s1 c0)
  have e: "Gcode_append ?off (Gcode_append ?off [Comment ''c''] (Cmd ?z5)) (Cmd ?z5)
     = [Comment ''c'', Cmd ?z5, Cmd ?z5]"
    using E [THEN conjunct1] by simp
  have e2: "copies ?z5 (Gcode_append ?off (Gcode_append ?off [Comment ''c''] (Cmd ?z5)) (Cmd ?z5)) = 2"
    using E [THEN conjunct2] by (simp add: c0)
  from on off a b c d a1 e e2 show ?thesis by blast
qed

text \<open>
  Claim C4. The scan does not go back through the stream: \<^verbatim>\<open>lastParameter\<close> and
  \<^verbatim>\<open>lastCommand\<close> look at the last line only. A rapid move to Z=5 followed by a comment
  is not found (the default comes back), and on a stream of one line the result is
  \<^verbatim>\<open>None\<close>, not even the default.
\<close>

theorem lastParameter_last_line_only:
  "lastParameter [Comment ''start'', Cmd \<lparr>Name = ''G0'', Parameters = [(''Z'', 5)]\<rparr>, Comment ''note''] ''Z'' [] (- 1) (Some 0) = Some 0
   \<and> lastParameter [Cmd \<lparr>Name = ''G0'', Parameters = [(''Z'', 5)]\<rparr>] ''Z'' [] (- 1) (Some 0) = None
   \<and> lastCommand [Comment ''start'', Cmd \<lparr>Name = ''G1'', Parameters = [(''F'', 100)]\<rparr>, Comment ''note''] [''G1''] (- 1) None = None
   \<and> lastCommand [Comment ''start'', Cmd \<lparr>Name = ''G1'', Parameters = [(''F'', 100)]\<rparr>, Cmd \<lparr>Name = ''G0'', Parameters = [(''Z'', 5)]\<rparr>] [''G1''] (- 1) (Some \<lparr>Name = ''M5'', Parameters = []\<rparr>) = Some \<lparr>Name = ''M5'', Parameters = []\<rparr>"
  by (simp add: lastParameter_def lastCommand_def range_down_def upto.simps)

section \<open>Drill cycles\<close>




text \<open>
  Claim C3. The retract height follows the stated rule once \<^verbatim>\<open>parseObject\<close> has met a
  G98 or G99 command, but not under the default mode: \<^verbatim>\<open>Gcode.__init__\<close> stores the
  default as a \<^verbatim>\<open>Command\<close>, and a \<^verbatim>\<open>Command\<close> never equals the string \<^verbatim>\<open>"G98"\<close>. With the
  tool at Z=10 and a cycle with R=2, the default mode retracts to 2; after an explicit
  G98 the same cycle retracts to 10.
\<close>

theorem default_retract_mode_is_not_G98:
  "line_eq (drillRetractMode (Gcode_init j)) (Str ''G98'') = False
   \<and> retractZ_of (drillRetractMode (Gcode_init j)) (Some 10) 2 = Inr 2
   \<and> retractZ_of (Str ''G98'') (Some 10) 2 = Inr 10
   \<and> parse_commands (\<lambda>c. Name c) default_conf
        ((Gcode_init (Some (300, 500)))
           \<lparr>gcode := [Header ''Header Start'', Cmd \<lparr>Name = ''G0'', Parameters = [(''Z'', 10)]\<rparr>]\<rparr>)
        \<lparr>obj_Name = ''Drilling'', obj_Commands = [], obj_ToolController = None\<rparr>
        [\<lparr>Name = ''G81'', Parameters = [(''X'', 10), (''Y'', 10), (''Z'', - 5), (''R'', 2), (''F'', 100)]\<rparr>]
     = Some (Inr
        \<lparr>gcode =
           [Header ''Header Start'',
            Cmd \<lparr>Name = ''G0'', Parameters = [(''Z'', 10)]\<rparr>,
            Cmd \<lparr>Name = ''G0'', Parameters = [(''X'', 10), (''Y'', 10), (''F'', 500)]\<rparr>,
            Cmd \<lparr>Name = ''G0'', Parameters = [(''Z'', 2), (''F'', 300)]\<rparr>,
            Cmd \<lparr>Name = ''G1'', Parameters = [(''Z'', - 5), (''F'', 100)]\<rparr>,
            Cmd \<lparr>Name = ''G0'', Parameters = [(''Z'', 2), (''F'', 300)]\<rparr>],
         drillRetractMode = Cmd \<lparr>Name = ''G98'', Parameters = []\<rparr>,
         job = Some (300, 500), console = []\<rparr>)
   \<and> parse_commands (\<lambda>c. Name c) default_conf
        ((Gcode_init (Some (300, 500)))
           \<lparr>gcode := [Header ''Header Start'', Cmd \<lparr>Name = ''G0'', Parameters = [(''Z'', 10)]\<rparr>]\<rparr>)
        \<lparr>obj_Name = ''Drilling'', obj_Commands = [], obj_ToolController = None\<rparr>
        [\<lparr>Name = ''G98'', Parameters = []\<rparr>,
         \<lparr>Name = ''G81'', Parameters = [(''X'', 10), (''Y'', 10), (''Z'', - 5), (''R'', 2), (''F'', 100)]\<rparr>]
     = Some (Inr
        \<lparr>gcode =
           [Header ''Header Start'',
            Cmd \<lparr>Name = ''G0'', Parameters = [(''Z'', 10)]\<rparr>,
            Cmd \<lparr>Name = ''G0'', Parameters = [(''X'', 10), (''Y'', 10), (''F'', 500)]\<rparr>,
            Cmd \<lparr>Name = ''G0'', Parameters = [(''Z'', 2), (''F'', 300)]\<rparr>,
            Cmd \<lparr>Name = ''G1'', Parameters = [(''Z'', - 5), (''F'', 100)]\<rparr>,
            Cmd \<lparr>Name = ''G0'', Parameters = [(''Z'', 10), (''F'', 300)]\<rparr>],
         drillRetractMode = Str ''G98'', job = Some (300, 500), console = []\<rparr>)"
proof (intro conjI)
  show "line_eq (drillRetractMode (Gcode_init j)) (Str ''G98'') = False"
    by (simp add: Gcode_init_def)
  show "retractZ_of (drillRetractMode (Gcode_init j)) (Some 10) 2 = Inr 2"
    by (simp add: Gcode_init_def retractZ_of_def)
  show "retractZ_of (Str ''G98'') (Some 10) 2 = Inr 10"
    by (simp add: retractZ_of_def)
qed code_simp+

subsection \<open>What the moves of a cycle add to the stream\<close>

lemma adds_plainI:
  "gcode st' = gcode st @ added \<Longrightarrow> filter carries_XY added = [] \<Longrightarrow> job st' = job st \<Longrightarrow> adds_plain st st'"
  by (simp add: adds_plain_def new_lines_def)

lemma adds_plainD:
  assumes "adds_plain st st'"
  shows "gcode st' = gcode st @ new_lines st st'" "filter carries_XY (new_lines st st') = []" "job st' = job st"
proof -
  from assms have "gcode st = take (length (gcode st)) (gcode st')" by (simp add: adds_plain_def)
  then have "take (length (gcode st)) (gcode st') @ drop (length (gcode st)) (gcode st') = gcode st @ new_lines st st'"
    by (simp add: new_lines_def)
  then show "gcode st' = gcode st @ new_lines st st'" by simp
  from assms show "filter carries_XY (new_lines st st') = []" "job st' = job st"
    by (simp_all add: adds_plain_def)
qed

lemma adds_plain_refl: "adds_plain st st"
  by (rule adds_plainI [where added = "[]"]) simp_all

lemma adds_plain_trans:
  assumes "adds_plain a b" "adds_plain b c"
  shows "adds_plain a c"
proof (rule adds_plainI [where added = "new_lines a b @ new_lines b c"])
  show "gcode c = gcode a @ new_lines a b @ new_lines b c"
    using adds_plainD(1) [OF assms(1)] adds_plainD(1) [OF assms(2)] by simp
  show "filter carries_XY (new_lines a b @ new_lines b c) = []"
    using adds_plainD(2) [OF assms(1)] adds_plainD(2) [OF assms(2)] by simp
  show "job c = job a"
    using adds_plainD(3) [OF assms(1)] adds_plainD(3) [OF assms(2)] by simp
qed

lemma addCommand_job: "job (addCommand cf st name ps obj) = job st"
  by (simp add: addCommand_def Let_def split: prod.splits)

lemma addCommand_gcode:
  "gcode (addCommand cf st name ps obj) =
     (if is_duplicate cf (gcode st) (Cmd \<lparr>Name = name, Parameters = ps\<rparr>) then gcode st
      else gcode st @ [Cmd (if (name = ''G0'' \<or> name = ''G00'') \<and> \<not> dict_in ''F'' ps
                           then rapid_feed \<lparr>Name = name, Parameters = ps\<rparr> (fst (getRapidSpeeds obj (job st)))
                           else \<lparr>Name = name, Parameters = ps\<rparr>)])"
  by (simp add: addCommand_def Let_def Gcode_append_def split: prod.splits)

lemma rapid_feed_dict_in:
  "k \<noteq> ''F'' \<Longrightarrow> dict_in k (Parameters (rapid_feed c r)) = dict_in k (Parameters c)"
  by (simp add: rapid_feed_def addParameter_def dict_in_def update_conv' split: option.splits prod.splits)

lemma carries_XY_rapid_feed: "carries_XY (Cmd (rapid_feed c r)) = carries_XY (Cmd c)"
  by (simp add: rapid_feed_dict_in)

lemma addCommand_plain:
  assumes "\<not> dict_in ''X'' ps" "\<not> dict_in ''Y'' ps"
  shows "adds_plain st (addCommand cf st name ps obj)"
proof (cases "is_duplicate cf (gcode st) (Cmd \<lparr>Name = name, Parameters = ps\<rparr>)")
  case True
  show ?thesis
    by (rule adds_plainI [where added = "[]"]) (simp_all add: addCommand_gcode True addCommand_job)
next
  case False
  show ?thesis
    by (rule adds_plainI [where added = "[Cmd (if (name = ''G0'' \<or> name = ''G00'') \<and> \<not> dict_in ''F'' ps
                           then rapid_feed \<lparr>Name = name, Parameters = ps\<rparr> (fst (getRapidSpeeds obj (job st)))
                           else \<lparr>Name = name, Parameters = ps\<rparr>)]"])
       (use assms in \<open>simp_all add: addCommand_gcode False addCommand_job rapid_feed_dict_in\<close>)
qed

lemma plain_Z: "\<not> dict_in ''X'' [(''Z'', z)]" "\<not> dict_in ''Y'' [(''Z'', z)]"
  "\<not> dict_in ''X'' [(''Z'', z), (''F'', f)]" "\<not> dict_in ''Y'' [(''Z'', z), (''F'', f)]"
  "\<not> dict_in ''X'' [(''S'', p)]" "\<not> dict_in ''Y'' [(''S'', p)]"
  by (simp_all add: dict_in_def)

lemmas addCommand_plain_Z = addCommand_plain [OF plain_Z(1,2)]
lemmas addCommand_plain_ZF = addCommand_plain [OF plain_Z(3,4)]
lemmas addCommand_plain_S = addCommand_plain [OF plain_Z(5,6)]

lemma peck_loop_plain:
  assumes "peck_loop cf obj drillZ drillR drillF drillStep st nextStopZ = Some st'"
  shows "adds_plain st st'"
proof (rule peck_loop.raw_induct
    [where P = "\<lambda>cf obj drillZ drillR drillF drillStep st nextStopZ st'. adds_plain st st'", OF _ assms],
    goal_cases)
  case (1 loop cf obj drillZ drillR drillF drillStep st nextStopZ st')
  let ?st1 = "addCommand cf st ''G1'' [(''Z'', nextStopZ), (''F'', drillF)] None"
  let ?st2 = "addCommand cf ?st1 ''G0'' [(''Z'', drillR)] obj"
  let ?st3 = "addCommand cf ?st2 ''G0'' [(''Z'', nextStopZ + drillStep * (1 / 2))] obj"
  have s1: "adds_plain st ?st1" by (rule addCommand_plain_ZF)
  have s3: "adds_plain st ?st3"
    by (rule adds_plain_trans [OF s1 adds_plain_trans [OF addCommand_plain_Z addCommand_plain_Z]])
  show ?case
  proof (cases "drillZ \<le> nextStopZ")
    case False
    with 1(2) show ?thesis by (simp add: adds_plain_refl)
  next
    case a: True
    show ?thesis
    proof (cases "drillZ \<le> nextStopZ - drillStep")
      case True
      with a 1(2) have "loop cf obj drillZ drillR drillF drillStep ?st3 (nextStopZ - drillStep) = Some st'"
        by (simp add: Let_def)
      then have "adds_plain ?st3 st'" by (rule 1(1))
      with s3 show ?thesis by (rule adds_plain_trans)
    next
      case b: False
      show ?thesis
      proof (cases "nextStopZ = drillZ")
        case True
        with a b 1(2) have "st' = ?st1" by (simp add: Let_def)
        with s1 show ?thesis by simp
      next
        case False
        with a b 1(2) have "st' = addCommand cf ?st3 ''G1'' [(''Z'', drillZ), (''F'', drillF)] None"
          by (simp add: Let_def)
        then show ?thesis
          using adds_plain_trans [OF s3 addCommand_plain_ZF] by simp
      qed
    qed
  qed
qed

lemma drill_cycle_plain:
  assumes "drill_cycle cf st cmd obj drillZ drillR drillF = Some (Inr st')"
  shows "adds_plain st st'"
proof -
  consider "Name cmd = ''G81''" | "Name cmd = ''G82''" | "Name cmd = ''G83''"
    | "Name cmd \<noteq> ''G81''" "Name cmd \<noteq> ''G82''" "Name cmd \<noteq> ''G83''" by blast
  then show ?thesis
  proof cases
    case 1
    with assms have "st' = addCommand cf st ''G1'' [(''Z'', drillZ), (''F'', drillF)] None"
      by (simp add: drill_cycle_def)
    then show ?thesis by (simp add: addCommand_plain_ZF)
  next
    case 2
    with assms obtain p where
      "st' = addCommand cf (addCommand cf st ''G1'' [(''Z'', drillZ), (''F'', drillF)] None) ''G4'' [(''S'', p)] None"
      by (auto simp add: drill_cycle_def Let_def split: sum.splits)
    then show ?thesis
      using adds_plain_trans [OF addCommand_plain_ZF addCommand_plain_S] by simp
  next
    case 3
    with assms obtain q where
      "peck_loop cf obj drillZ drillR drillF q st (drillR - q) = Some st'"
      by (auto simp add: drill_cycle_def split: sum.splits)
    then show ?thesis by (rule peck_loop_plain)
  next
    case 4
    with assms have "st' = st" by (simp add: drill_cycle_def)
    then show ?thesis by (simp add: adds_plain_refl)
  qed
qed

lemma range_down_pos: "1 \<le> i \<Longrightarrow> range_down i = i # range_down (i - 1)"
  by (simp add: range_down_def upto_rec2)

lemma lastParameter_last:
  assumes "2 \<le> length g"
  shows "lastParameter g param [] (- 1) dflt =
           (case last g of
              Cmd c \<Rightarrow> (case map_of (Parameters c) param of Some v \<Rightarrow> Some v | None \<Rightarrow> dflt)
            | _ \<Rightarrow> dflt)"
proof -
  let ?n = "int (length g)"
  have m: "(- 1) mod ?n = ?n - 1"
    using assms by (intro zmod_minus1) auto
  have r: "range_down (?n - 1) = (?n - 1) # range_down (?n - 1 - 1)"
    using assms by (intro range_down_pos) simp
  have ne: "g \<noteq> []" using assms by auto
  have k: "nat (?n - 1) = length g - 1" by simp
  have l: "g ! nat (?n - 1) = last g"
    unfolding k using last_conv_nth [OF ne] by simp
  have "lastParameter g param [] (- 1) dflt = lastParameter_loop g param [] dflt (range_down (?n - 1))"
    using ne by (simp add: lastParameter_def m)
  also have "\<dots> = lastParameter_loop g param [] dflt ((?n - 1) # range_down (?n - 1 - 1))"
    by (subst r) (rule refl)
  also have "\<dots> = (case last g of
              Cmd c \<Rightarrow> (case map_of (Parameters c) param of Some v \<Rightarrow> Some v | None \<Rightarrow> dflt)
            | _ \<Rightarrow> dflt)"
    unfolding lastParameter_loop.simps l
    by (simp add: dict_in_def dict_getitem_def split: line.splits option.splits)
  finally show ?thesis .
qed

lemma lastParameter_single: "length g = 1 \<Longrightarrow> lastParameter g param names (- 1) dflt = None"
  by (simp add: lastParameter_def range_down_def)

lemma line_eq_CmdD:
  assumes "line_eq x (Cmd c)"
  shows "\<exists>c'. x = Cmd c' \<and> Name c' = Name c \<and> map_of (Parameters c') = map_of (Parameters c)"
  using assms by (cases x) (auto simp add: dict_eq_iff)

lemma XY_not_duplicate_of_position:
  assumes "lastParameter g ''X'' [] (- 1) (Some 0) = Some x" "x \<noteq> drillX"
  shows "\<not> is_duplicate cf g (Cmd \<lparr>Name = ''G0'', Parameters = [(''X'', drillX), (''Y'', drillY)]\<rparr>)"
proof
  assume d: "is_duplicate cf g (Cmd \<lparr>Name = ''G0'', Parameters = [(''X'', drillX), (''Y'', drillY)]\<rparr>)"
  then have ne: "g \<noteq> []" and e: "line_eq (last g) (Cmd \<lparr>Name = ''G0'', Parameters = [(''X'', drillX), (''Y'', drillY)]\<rparr>)"
    by (auto simp add: is_duplicate_def)
  from line_eq_CmdD [OF e] obtain c' where c: "last g = Cmd c'"
    "map_of (Parameters c') = map_of [(''X'', drillX), (''Y'', drillY)]" by auto
  then have cx: "map_of (Parameters c') ''X'' = Some drillX" by simp
  have "length g \<noteq> 1" using assms(1) lastParameter_single [of g] by auto
  with ne have "2 \<le> length g" by (cases g) (auto simp add: Suc_le_eq)
  from lastParameter_last [OF this, of "''X''" "Some 0"] c(1) cx assms show False by simp
qed

lemma last_after_Z_move:
  "gcode (addCommand cf st ''G0'' [(''Z'', z)] obj) \<noteq> []
   \<and> (\<exists>c. last (gcode (addCommand cf st ''G0'' [(''Z'', z)] obj)) = Cmd c \<and> dict_in ''Z'' (Parameters c))"
proof (cases "is_duplicate cf (gcode st) (Cmd \<lparr>Name = ''G0'', Parameters = [(''Z'', z)]\<rparr>)")
  case True
  then have ne: "gcode st \<noteq> []" and e: "line_eq (last (gcode st)) (Cmd \<lparr>Name = ''G0'', Parameters = [(''Z'', z)]\<rparr>)"
    by (auto simp add: is_duplicate_def)
  from line_eq_CmdD [OF e] obtain c' where "last (gcode st) = Cmd c'"
    "map_of (Parameters c') = map_of [(''Z'', z)]" by auto
  then show ?thesis using True ne by (simp add: addCommand_gcode dict_in_def)
next
  case False
  then show ?thesis
    by (simp add: addCommand_gcode rapid_feed_dict_in) (simp add: dict_in_def)
qed

lemma XY_not_duplicate_after_Z:
  assumes "g \<noteq> [] \<and> (\<exists>c. last g = Cmd c \<and> dict_in ''Z'' (Parameters c))"
  shows "\<not> is_duplicate cf g (Cmd \<lparr>Name = ''G0'', Parameters = [(''X'', drillX), (''Y'', drillY)]\<rparr>)"
proof
  assume "is_duplicate cf g (Cmd \<lparr>Name = ''G0'', Parameters = [(''X'', drillX), (''Y'', drillY)]\<rparr>)"
  then have e: "line_eq (last g) (Cmd \<lparr>Name = ''G0'', Parameters = [(''X'', drillX), (''Y'', drillY)]\<rparr>)"
    by (simp add: is_duplicate_def)
  from line_eq_CmdD [OF e] obtain c' where c: "last g = Cmd c'"
    "map_of (Parameters c') = map_of [(''X'', drillX), (''Y'', drillY)]" by auto
  then have "map_of (Parameters c') ''Z'' = None" by simp
  with assms c(1) show False by (auto simp add: dict_in_def)
qed

subsection \<open>The XY positioning move\<close>

text \<open>
  The comparison itself. For a cycle that is translated (R not below Z, the translation
  returns), with \<open>x\<close> and \<open>y\<close> the values that \<^verbatim>\<open>translateDrill\<close> gets from \<^verbatim>\<open>lastParameter\<close>:
  the stream is extended at its end, and among the lines added the ones that carry an
  X or a Y are exactly one rapid move to the target (X, Y) when \<open>x\<close> differs from X and
  \<open>y\<close> differs from Y, and none otherwise. The values \<open>x\<close> and \<open>y\<close> are those of the last
  line of the stream only, or 0.
\<close>

lemma XY_move_by_lookup:
  assumes tr: "translateDrill cf st cmd obj = Some (Inr st')"
    and X: "dict_getitem (Parameters cmd) ''X'' = Inr drillX"
    and Y: "dict_getitem (Parameters cmd) ''Y'' = Inr drillY"
    and Z: "dict_getitem (Parameters cmd) ''Z'' = Inr drillZ"
    and R: "dict_getitem (Parameters cmd) ''R'' = Inr drillR"
    and RZ: "drillZ \<le> drillR"
    and px: "lastParameter (gcode st) ''X'' [] (- 1) (Some 0) = Some x"
    and py: "lastParameter (gcode st) ''Y'' [] (- 1) (Some 0) = Some y"
  shows "gcode st' = gcode st @ new_lines st st'
     \<and> filter carries_XY (new_lines st st') =
         (if x \<noteq> drillX \<and> y \<noteq> drillY
          then [Cmd (rapid_feed \<lparr>Name = ''G0'', Parameters = [(''X'', drillX), (''Y'', drillY)]\<rparr>
                       (fst (getRapidSpeeds obj (job st))))]
          else [])"
proof -
  let ?pos = "\<lambda>param. lastParameter (gcode st) param [] (- 1) (Some 0)"
  let ?xy = "\<lparr>Name = ''G0'', Parameters = [(''X'', drillX), (''Y'', drillY)]\<rparr>"
  obtain drillF where F: "dict_getitem (Parameters cmd) ''F'' = Inr drillF"
    using tr X Y Z R by (cases "dict_getitem (Parameters cmd) ''F''") (simp_all add: translateDrill_def)
  have dm: "drill_moves cf st cmd obj ?pos drillX drillY drillZ drillR drillF = Some (Inr st')"
    using tr X Y Z R F RZ by (simp add: translateDrill_def)
  obtain rz where rz: "retractZ_of (drillRetractMode st) (?pos ''Z'') drillR = Inr rz"
    using dm by (cases "retractZ_of (drillRetractMode st) (?pos ''Z'') drillR") (simp_all add: drill_moves_def)
  obtain pz where pz: "?pos ''Z'' = Some pz"
    using dm rz by (cases "?pos ''Z''") (simp_all add: drill_moves_def)
  define st1 where "st1 = (if pz < rz then addCommand cf st ''G0'' [(''Z'', rz)] obj else st)"
  define st2 where "st2 = (if x \<noteq> drillX \<and> y \<noteq> drillY then addCommand cf st1 ''G0'' [(''X'', drillX), (''Y'', drillY)] obj else st1)"
  define st3 where "st3 = addCommand cf st2 ''G0'' [(''Z'', drillR)] obj"
  have dm': "(case drill_cycle cf st3 cmd obj drillZ drillR drillF of
                None \<Rightarrow> None
              | Some (Inl e) \<Rightarrow> Some (Inl e)
              | Some (Inr st4) \<Rightarrow> Some (Inr (addCommand cf st4 ''G0'' [(''Z'', rz)] obj))) = Some (Inr st')"
    using dm rz pz px py
    by (simp add: drill_moves_def Let_def st1_def st2_def st3_def split del: if_split cong: if_cong)
  then obtain st4 where c: "drill_cycle cf st3 cmd obj drillZ drillR drillF = Some (Inr st4)"
    and e: "st' = addCommand cf st4 ''G0'' [(''Z'', rz)] obj"
    by (auto split: option.splits sum.splits)
  have p1: "adds_plain st st1"
    by (simp add: st1_def addCommand_plain_Z adds_plain_refl)
  have a3: "adds_plain st2 st3" unfolding st3_def by (rule addCommand_plain_Z)
  have a4: "adds_plain st3 st4" by (rule drill_cycle_plain [OF c])
  have a5: "adds_plain st4 st'" unfolding e by (rule addCommand_plain_Z)
  have p3: "adds_plain st2 st'"
    by (rule adds_plain_trans [OF a3 adds_plain_trans [OF a4 a5]])
  define mid where "mid = (if x \<noteq> drillX \<and> y \<noteq> drillY
          then [Cmd (rapid_feed ?xy (fst (getRapidSpeeds obj (job st))))] else [])"
  have p2: "gcode st2 = gcode st1 @ mid \<and> job st2 = job st1"
  proof (cases "x \<noteq> drillX \<and> y \<noteq> drillY")
    case False
    then show ?thesis by (auto simp add: st2_def mid_def)
  next
    case True
    have nd: "\<not> is_duplicate cf (gcode st1) (Cmd ?xy)"
    proof (cases "pz < rz")
      case True
      then show ?thesis
        using XY_not_duplicate_after_Z [OF last_after_Z_move [of cf st rz obj]] by (simp add: st1_def)
    next
      case False
      then show ?thesis
        using XY_not_duplicate_of_position [OF px] True by (simp add: st1_def)
    qed
    have "job st1 = job st" using adds_plainD(3) [OF p1] .
    then show ?thesis
      using True nd by (simp add: st2_def mid_def addCommand_gcode addCommand_job dict_in_def)
  qed
  have g: "gcode st' = gcode st @ (new_lines st st1 @ mid @ new_lines st2 st')"
    using adds_plainD(1) [OF p1] adds_plainD(1) [OF p3] p2 by simp
  then have n: "new_lines st st' = new_lines st st1 @ mid @ new_lines st2 st'"
    by (simp add: new_lines_def [of st st'])
  have "filter carries_XY mid = mid"
    by (simp add: mid_def carries_XY_rapid_feed dict_in_def del: carries_XY.simps)
       (simp add: dict_in_def)
  then have "filter carries_XY (new_lines st st') = mid"
    using adds_plainD(2) [OF p1] adds_plainD(2) [OF p3] by (simp add: n)
  with g n show ?thesis by (simp add: mid_def)
qed

lemma XY_move_by_lookup_example:
  "(\<exists>st'. translateDrill default_conf
        \<lparr>gcode = [Header ''Header Start'', Cmd \<lparr>Name = ''G0'', Parameters = [(''X'', 0), (''Y'', 0), (''F'', 500)]\<rparr>],
         drillRetractMode = Str ''G99'', job = Some (300, 500), console = []\<rparr>
        \<lparr>Name = ''G81'', Parameters = [(''X'', 10), (''Y'', 20), (''Z'', - 5), (''R'', 2), (''F'', 100)]\<rparr>
        None = Some (Inr st')
      \<and> filter carries_XY (new_lines
        \<lparr>gcode = [Header ''Header Start'', Cmd \<lparr>Name = ''G0'', Parameters = [(''X'', 0), (''Y'', 0), (''F'', 500)]\<rparr>],
         drillRetractMode = Str ''G99'', job = Some (300, 500), console = []\<rparr> st')
        = [Cmd \<lparr>Name = ''G0'', Parameters = [(''X'', 10), (''Y'', 20), (''F'', 500)]\<rparr>])
   \<and> (\<exists>st'. translateDrill default_conf
        \<lparr>gcode = [Header ''Header Start'', Cmd \<lparr>Name = ''G0'', Parameters = [(''X'', 10), (''Y'', 0), (''F'', 500)]\<rparr>],
         drillRetractMode = Str ''G99'', job = Some (300, 500), console = []\<rparr>
        \<lparr>Name = ''G81'', Parameters = [(''X'', 10), (''Y'', 20), (''Z'', - 5), (''R'', 2), (''F'', 100)]\<rparr>
        None = Some (Inr st')
      \<and> filter carries_XY (new_lines
        \<lparr>gcode = [Header ''Header Start'', Cmd \<lparr>Name = ''G0'', Parameters = [(''X'', 10), (''Y'', 0), (''F'', 500)]\<rparr>],
         drillRetractMode = Str ''G99'', job = Some (300, 500), console = []\<rparr> st')
        = [])"
proof -
  let ?cmd = "\<lparr>Name = ''G81'', Parameters = [(''X'', 10), (''Y'', 20), (''Z'', - 5), (''R'', 2), (''F'', 100)]\<rparr>"
  let ?a = "\<lparr>gcode = [Header ''Header Start'', Cmd \<lparr>Name = ''G0'', Parameters = [(''X'', 0), (''Y'', 0), (''F'', 500)]\<rparr>],
         drillRetractMode = Str ''G99'', job = Some (300, 500), console = []\<rparr>"
  let ?a' = "\<lparr>gcode =
          [Header ''Header Start'',
           Cmd \<lparr>Name = ''G0'', Parameters = [(''X'', 0), (''Y'', 0), (''F'', 500)]\<rparr>,
           Cmd \<lparr>Name = ''G0'', Parameters = [(''Z'', 2), (''F'', 300)]\<rparr>,
           Cmd \<lparr>Name = ''G0'', Parameters = [(''X'', 10), (''Y'', 20), (''F'', 500)]\<rparr>,
           Cmd \<lparr>Name = ''G0'', Parameters = [(''Z'', 2), (''F'', 300)]\<rparr>,
           Cmd \<lparr>Name = ''G1'', Parameters = [(''Z'', - 5), (''F'', 100)]\<rparr>,
           Cmd \<lparr>Name = ''G0'', Parameters = [(''Z'', 2), (''F'', 300)]\<rparr>],
          drillRetractMode = Str ''G99'', job = Some (300, 500), console = []\<rparr>"
  let ?b = "\<lparr>gcode = [Header ''Header Start'', Cmd \<lparr>Name = ''G0'', Parameters = [(''X'', 10), (''Y'', 0), (''F'', 500)]\<rparr>],
         drillRetractMode = Str ''G99'', job = Some (300, 500), console = []\<rparr>"
  let ?b' = "\<lparr>gcode =
          [Header ''Header Start'',
           Cmd \<lparr>Name = ''G0'', Parameters = [(''X'', 10), (''Y'', 0), (''F'', 500)]\<rparr>,
           Cmd \<lparr>Name = ''G0'', Parameters = [(''Z'', 2), (''F'', 300)]\<rparr>,
           Cmd \<lparr>Name = ''G0'', Parameters = [(''Z'', 2), (''F'', 300)]\<rparr>,
           Cmd \<lparr>Name = ''G1'', Parameters = [(''Z'', - 5), (''F'', 100)]\<rparr>,
           Cmd \<lparr>Name = ''G0'', Parameters = [(''Z'', 2), (''F'', 300)]\<rparr>],
          drillRetractMode = Str ''G99'', job = Some (300, 500), console = []\<rparr>"
  have X: "dict_getitem (Parameters ?cmd) ''X'' = Inr 10"
    and Y: "dict_getitem (Parameters ?cmd) ''Y'' = Inr 20"
    and Z: "dict_getitem (Parameters ?cmd) ''Z'' = Inr (- 5)"
    and R: "dict_getitem (Parameters ?cmd) ''R'' = Inr 2"
    by (simp_all add: dict_getitem_def)
  have RZ: "(- 5 :: rat) \<le> 2" by simp
  have ta: "translateDrill default_conf ?a ?cmd None = Some (Inr ?a')" by code_simp
  have tb: "translateDrill default_conf ?b ?cmd None = Some (Inr ?b')" by code_simp
  have pa: "lastParameter (gcode ?a) ''X'' [] (- 1) (Some 0) = Some 0"
      "lastParameter (gcode ?a) ''Y'' [] (- 1) (Some 0) = Some 0"
    by code_simp+
  have pb: "lastParameter (gcode ?b) ''X'' [] (- 1) (Some 0) = Some 10"
      "lastParameter (gcode ?b) ''Y'' [] (- 1) (Some 0) = Some 0"
    by code_simp+
  have "filter carries_XY (new_lines ?a ?a') =
        (if (0::rat) \<noteq> 10 \<and> (0::rat) \<noteq> 20
         then [Cmd (rapid_feed \<lparr>Name = ''G0'', Parameters = [(''X'', 10), (''Y'', 20)]\<rparr>
                      (fst (getRapidSpeeds None (job ?a))))]
         else [])"
    by (rule XY_move_by_lookup [OF ta X Y Z R RZ pa, THEN conjunct2])
  also have "\<dots> = [Cmd \<lparr>Name = ''G0'', Parameters = [(''X'', 10), (''Y'', 20), (''F'', 500)]\<rparr>]"
    by (simp add: rapid_feed_def getRapidSpeeds_def addParameter_def dict_in_def)
  finally have fa: "filter carries_XY (new_lines ?a ?a') =
        [Cmd \<lparr>Name = ''G0'', Parameters = [(''X'', 10), (''Y'', 20), (''F'', 500)]\<rparr>]" .
  have "filter carries_XY (new_lines ?b ?b') =
        (if (10::rat) \<noteq> 10 \<and> (0::rat) \<noteq> 20
         then [Cmd (rapid_feed \<lparr>Name = ''G0'', Parameters = [(''X'', 10), (''Y'', 20)]\<rparr>
                      (fst (getRapidSpeeds None (job ?b))))]
         else [])"
    by (rule XY_move_by_lookup [OF tb X Y Z R RZ pb, THEN conjunct2])
  also have "\<dots> = []" by simp
  finally have fb: "filter carries_XY (new_lines ?b ?b') = []" .
  from ta tb fa fb show ?thesis by blast
qed

text \<open>
  Claim C7. The move is decided against the values of the last line of the stream, not
  against the current position. On a stream that moved to X=10, Y=20 and then to Z=5,
  the current position is (10, 20), and the last line carries neither X nor Y, so both
  values are read as 0. A cycle \<^verbatim>\<open>G81\<close> at (0, 5) differs from the current position on
  both axes, and no XY move is added: the hole is fed at (10, 20). A cycle \<^verbatim>\<open>G81\<close> at
  (10, 20) differs on neither axis, and one XY move is added.
\<close>

theorem XY_move_ignores_position:
  "current_position
      [Header ''Header Start'',
       Cmd \<lparr>Name = ''G0'', Parameters = [(''X'', 10), (''Y'', 20), (''F'', 500)]\<rparr>,
       Cmd \<lparr>Name = ''G0'', Parameters = [(''Z'', 5), (''F'', 300)]\<rparr>] ''X'' = 10
   \<and> current_position
      [Header ''Header Start'',
       Cmd \<lparr>Name = ''G0'', Parameters = [(''X'', 10), (''Y'', 20), (''F'', 500)]\<rparr>,
       Cmd \<lparr>Name = ''G0'', Parameters = [(''Z'', 5), (''F'', 300)]\<rparr>] ''Y'' = 20
   \<and> translateDrill default_conf
        \<lparr>gcode = [Header ''Header Start'',
                  Cmd \<lparr>Name = ''G0'', Parameters = [(''X'', 10), (''Y'', 20), (''F'', 500)]\<rparr>,
                  Cmd \<lparr>Name = ''G0'', Parameters = [(''Z'', 5), (''F'', 300)]\<rparr>],
         drillRetractMode = Str ''G99'', job = Some (300, 500), console = []\<rparr>
        \<lparr>Name = ''G81'', Parameters = [(''X'', 0), (''Y'', 5), (''Z'', - 5), (''R'', 2), (''F'', 100)]\<rparr>
        None
     = Some (Inr
        \<lparr>gcode = [Header ''Header Start'',
                  Cmd \<lparr>Name = ''G0'', Parameters = [(''X'', 10), (''Y'', 20), (''F'', 500)]\<rparr>,
                  Cmd \<lparr>Name = ''G0'', Parameters = [(''Z'', 5), (''F'', 300)]\<rparr>,
                  Cmd \<lparr>Name = ''G0'', Parameters = [(''Z'', 2), (''F'', 300)]\<rparr>,
                  Cmd \<lparr>Name = ''G1'', Parameters = [(''Z'', - 5), (''F'', 100)]\<rparr>,
                  Cmd \<lparr>Name = ''G0'', Parameters = [(''Z'', 2), (''F'', 300)]\<rparr>],
         drillRetractMode = Str ''G99'', job = Some (300, 500), console = []\<rparr>)
   \<and> translateDrill default_conf
        \<lparr>gcode = [Header ''Header Start'',
                  Cmd \<lparr>Name = ''G0'', Parameters = [(''X'', 10), (''Y'', 20), (''F'', 500)]\<rparr>,
                  Cmd \<lparr>Name = ''G0'', Parameters = [(''Z'', 5), (''F'', 300)]\<rparr>],
         drillRetractMode = Str ''G99'', job = Some (300, 500), console = []\<rparr>
        \<lparr>Name = ''G81'', Parameters = [(''X'', 10), (''Y'', 20), (''Z'', - 5), (''R'', 2), (''F'', 100)]\<rparr>
        None
     = Some (Inr
        \<lparr>gcode = [Header ''Header Start'',
                  Cmd \<lparr>Name = ''G0'', Parameters = [(''X'', 10), (''Y'', 20), (''F'', 500)]\<rparr>,
                  Cmd \<lparr>Name = ''G0'', Parameters = [(''Z'', 5), (''F'', 300)]\<rparr>,
                  Cmd \<lparr>Name = ''G0'', Parameters = [(''X'', 10), (''Y'', 20), (''F'', 500)]\<rparr>,
                  Cmd \<lparr>Name = ''G0'', Parameters = [(''Z'', 2), (''F'', 300)]\<rparr>,
                  Cmd \<lparr>Name = ''G1'', Parameters = [(''Z'', - 5), (''F'', 100)]\<rparr>,
                  Cmd \<lparr>Name = ''G0'', Parameters = [(''Z'', 2), (''F'', 300)]\<rparr>],
         drillRetractMode = Str ''G99'', job = Some (300, 500), console = []\<rparr>)"
  by code_simp

subsection \<open>The peck loop\<close>

text \<open>
  With exact arithmetic a positive peck step leaves the loop after finitely many passes.
\<close>

lemma peck_loop_terminates:
  assumes "0 < drillStep"
  shows "\<exists>st'. peck_loop cf obj drillZ drillR drillF drillStep st nextStopZ = Some st'"
proof (induction "nat \<lfloor>(nextStopZ - drillZ) / drillStep\<rfloor>" arbitrary: nextStopZ st rule: less_induct)
  case less
  show ?case
  proof (cases "drillZ \<le> nextStopZ - drillStep")
    case True
    have q: "(nextStopZ - drillStep - drillZ) / drillStep = (nextStopZ - drillZ) / drillStep - 1"
      using assms by (simp add: field_simps)
    have "1 \<le> (nextStopZ - drillZ) / drillStep"
      using True assms by (simp add: field_simps)
    then have "1 \<le> \<lfloor>(nextStopZ - drillZ) / drillStep\<rfloor>" by linarith
    then have "nat \<lfloor>(nextStopZ - drillStep - drillZ) / drillStep\<rfloor> < nat \<lfloor>(nextStopZ - drillZ) / drillStep\<rfloor>"
      unfolding q by simp
    from less [OF this] True assms show ?thesis
      by (subst peck_loop.simps) (simp add: Let_def)
  next
    case False
    then show ?thesis
      by (subst peck_loop.simps) (simp add: Let_def)
  qed
qed

lemma feed_depths_append: "feed_depths (a @ b) = feed_depths a @ feed_depths b"
  by (induction a) (simp_all add: feed_depths_def List.map_filter_simps split: option.splits)

lemma feed_depths_Nil: "feed_depths [] = []"
  by (simp add: feed_depths_def List.map_filter_simps)

lemma feed_depths_G1:
  "feed_depths [Cmd \<lparr>Name = ''G1'', Parameters = [(''Z'', d), (''F'', f)]\<rparr>] = [d]"
  by (simp add: feed_depths_def List.map_filter_simps dict_get_def)

lemma feed_depths_G0: "Name c = ''G0'' \<Longrightarrow> feed_depths [Cmd c] = []"
  by (simp add: feed_depths_def List.map_filter_simps)

lemma rapid_feed_Name: "Name (rapid_feed c r) = Name c"
  by (simp add: rapid_feed_def addParameter_def split: option.splits prod.splits)

lemma addCommand_G1_after_rapid:
  assumes "ends_rapid (gcode st)"
  shows "gcode (addCommand cf st ''G1'' ps None) = gcode st @ [Cmd \<lparr>Name = ''G1'', Parameters = ps\<rparr>]"
proof -
  have "\<not> is_duplicate cf (gcode st) (Cmd \<lparr>Name = ''G1'', Parameters = ps\<rparr>)"
    using assms by (auto simp add: is_duplicate_def ends_rapid_def split: line.splits)
  then show ?thesis by (simp add: addCommand_gcode)
qed

lemma addCommand_G0:
  "\<exists>ls. gcode (addCommand cf st ''G0'' ps obj) = gcode st @ ls \<and> feed_depths ls = []
        \<and> ends_rapid (gcode st @ ls)"
proof (cases "is_duplicate cf (gcode st) (Cmd \<lparr>Name = ''G0'', Parameters = ps\<rparr>)")
  case True
  then have "gcode st \<noteq> []" "line_eq (last (gcode st)) (Cmd \<lparr>Name = ''G0'', Parameters = ps\<rparr>)"
    by (auto simp add: is_duplicate_def)
  with line_eq_CmdD [OF this(2)] have "ends_rapid (gcode st)"
    by (auto simp add: ends_rapid_def)
  then show ?thesis
    using True by (intro exI [of _ "[]"]) (simp add: addCommand_gcode feed_depths_Nil)
next
  case False
  let ?l = "Cmd (if \<not> dict_in ''F'' ps
                 then rapid_feed \<lparr>Name = ''G0'', Parameters = ps\<rparr> (fst (getRapidSpeeds obj (job st)))
                 else \<lparr>Name = ''G0'', Parameters = ps\<rparr>)"
  have "gcode (addCommand cf st ''G0'' ps obj) = gcode st @ [?l]"
    using False by (simp add: addCommand_gcode)
  moreover have "feed_depths [?l] = []"
    by (simp add: feed_depths_G0 rapid_feed_Name)
  moreover have "ends_rapid (gcode st @ [?l])"
    by (simp add: ends_rapid_def rapid_feed_Name)
  ultimately show ?thesis by blast
qed

lemma peck_loop_feeds:
  assumes "peck_loop cf obj drillZ drillR drillF drillStep st nextStopZ = Some st'"
  shows "drillZ \<le> nextStopZ \<longrightarrow> ends_rapid (gcode st) \<longrightarrow>
           (\<exists>ls. gcode st' = gcode st @ ls \<and> feed_depths ls \<noteq> []
              \<and> last (feed_depths ls) = drillZ \<and> (\<forall>d\<in>set (feed_depths ls). drillZ \<le> d))"
proof (rule peck_loop.raw_induct
    [where P = "\<lambda>cf obj drillZ drillR drillF drillStep st nextStopZ st'.
                  drillZ \<le> nextStopZ \<longrightarrow> ends_rapid (gcode st) \<longrightarrow>
                  (\<exists>ls. gcode st' = gcode st @ ls \<and> feed_depths ls \<noteq> []
                     \<and> last (feed_depths ls) = drillZ \<and> (\<forall>d\<in>set (feed_depths ls). drillZ \<le> d))",
     OF _ assms], goal_cases)
  case (1 loop cf obj drillZ drillR drillF drillStep st nextStopZ st')
  show ?case
  proof (intro impI)
    assume a: "drillZ \<le> nextStopZ" and er: "ends_rapid (gcode st)"
    let ?g1 = "Cmd \<lparr>Name = ''G1'', Parameters = [(''Z'', nextStopZ), (''F'', drillF)]\<rparr>"
    let ?st1 = "addCommand cf st ''G1'' [(''Z'', nextStopZ), (''F'', drillF)] None"
    let ?st2 = "addCommand cf ?st1 ''G0'' [(''Z'', drillR)] obj"
    let ?st3 = "addCommand cf ?st2 ''G0'' [(''Z'', nextStopZ + drillStep * (1 / 2))] obj"
    have g1: "gcode ?st1 = gcode st @ [?g1]"
      by (rule addCommand_G1_after_rapid [OF er])
    obtain l2 where l2: "gcode ?st2 = gcode ?st1 @ l2" "feed_depths l2 = []"
      using addCommand_G0 [of cf ?st1 "[(''Z'', drillR)]" obj] by blast
    obtain l3 where l3: "gcode ?st3 = gcode ?st2 @ l3" "feed_depths l3 = []"
        "ends_rapid (gcode ?st2 @ l3)"
      using addCommand_G0 [of cf ?st2 "[(''Z'', nextStopZ + drillStep * (1 / 2))]" obj] by blast
    have g3: "gcode ?st3 = gcode st @ ([?g1] @ l2 @ l3)" and e3: "ends_rapid (gcode ?st3)"
      using g1 l2 l3 by simp_all
    have f3: "feed_depths ([?g1] @ l2 @ l3) = [nextStopZ]"
      by (simp only: feed_depths_append l2 l3 feed_depths_G1) simp
    show "\<exists>ls. gcode st' = gcode st @ ls \<and> feed_depths ls \<noteq> []
            \<and> last (feed_depths ls) = drillZ \<and> (\<forall>d\<in>set (feed_depths ls). drillZ \<le> d)"
    proof (cases "drillZ \<le> nextStopZ - drillStep")
      case True
      with a 1(2) have "loop cf obj drillZ drillR drillF drillStep ?st3 (nextStopZ - drillStep) = Some st'"
        by (simp add: Let_def)
      from 1(1) [OF this] True e3 obtain ls where
        ls: "gcode st' = gcode ?st3 @ ls" "feed_depths ls \<noteq> []" "last (feed_depths ls) = drillZ"
          "\<forall>d\<in>set (feed_depths ls). drillZ \<le> d"
        by blast
      show ?thesis
      proof (intro exI [of _ "([?g1] @ l2 @ l3) @ ls"] conjI)
        show "gcode st' = gcode st @ ([?g1] @ l2 @ l3) @ ls" using ls(1) g3 by simp
        show "feed_depths (([?g1] @ l2 @ l3) @ ls) \<noteq> []"
          unfolding feed_depths_append [of "[?g1] @ l2 @ l3"] f3 by simp
        show "last (feed_depths (([?g1] @ l2 @ l3) @ ls)) = drillZ"
          unfolding feed_depths_append [of "[?g1] @ l2 @ l3"] f3 using ls(2,3) by simp
        show "\<forall>d\<in>set (feed_depths (([?g1] @ l2 @ l3) @ ls)). drillZ \<le> d"
          unfolding feed_depths_append [of "[?g1] @ l2 @ l3"] f3 using ls(4) a by simp
      qed
    next
      case b: False
      show ?thesis
      proof (cases "nextStopZ = drillZ")
        case True
        with a b 1(2) have "st' = ?st1" by (simp add: Let_def)
        then show ?thesis
          using g1 True by (intro exI [of _ "[?g1]"]) (simp add: feed_depths_G1)
      next
        case False
        let ?gz = "Cmd \<lparr>Name = ''G1'', Parameters = [(''Z'', drillZ), (''F'', drillF)]\<rparr>"
        from False a b 1(2) have "st' = addCommand cf ?st3 ''G1'' [(''Z'', drillZ), (''F'', drillF)] None"
          by (simp add: Let_def)
        then have "gcode st' = gcode st @ (([?g1] @ l2 @ l3) @ [?gz])"
          using addCommand_G1_after_rapid [OF e3] g3 by simp
        moreover have "feed_depths (([?g1] @ l2 @ l3) @ [?gz]) = [nextStopZ, drillZ]"
          unfolding feed_depths_append [of "[?g1] @ l2 @ l3"] f3 feed_depths_G1 by simp
        ultimately show ?thesis
          using a by (intro exI [of _ "([?g1] @ l2 @ l3) @ [?gz]"]) (simp del: append.simps append_assoc)
      qed
    qed
  qed
qed

lemma addCommand_G0_steps:
  assumes "gcode st1 = gcode st @ pre" "feed_depths pre = []"
  shows "\<exists>ls. gcode (addCommand cf st1 ''G0'' ps obj) = gcode st @ ls \<and> feed_depths ls = []
           \<and> ends_rapid (gcode (addCommand cf st1 ''G0'' ps obj))"
proof -
  obtain l where l: "gcode (addCommand cf st1 ''G0'' ps obj) = gcode st1 @ l" "feed_depths l = []"
      "ends_rapid (gcode st1 @ l)"
    using addCommand_G0 [of cf st1 ps obj] by blast
  show ?thesis
    using l assms by (intro exI [of _ "pre @ l"]) (simp add: feed_depths_append)
qed

text \<open>
  A peck cycle whose step is positive and not larger than the depth of the hole
  (\<open>drillZ \<le> drillR - drillStep\<close>) is translated, and its feed moves stay at or above the
  target depth and end exactly on it.
\<close>

theorem peck_cycle_reaches_depth:
  assumes n: "Name cmd = ''G83''"
    and X: "dict_getitem (Parameters cmd) ''X'' = Inr drillX"
    and Y: "dict_getitem (Parameters cmd) ''Y'' = Inr drillY"
    and Z: "dict_getitem (Parameters cmd) ''Z'' = Inr drillZ"
    and R: "dict_getitem (Parameters cmd) ''R'' = Inr drillR"
    and F: "dict_getitem (Parameters cmd) ''F'' = Inr drillF"
    and Q: "dict_getitem (Parameters cmd) ''Q'' = Inr drillStep"
    and q: "0 < drillStep" and d: "drillZ \<le> drillR - drillStep"
    and pz: "lastParameter (gcode st) ''Z'' [] (- 1) (Some 0) = Some posZ"
  shows "\<exists>st'. translateDrill cf st cmd obj = Some (Inr st')
           \<and> gcode st' = gcode st @ new_lines st st'
           \<and> feed_depths (new_lines st st') \<noteq> []
           \<and> last (feed_depths (new_lines st st')) = drillZ
           \<and> (\<forall>d\<in>set (feed_depths (new_lines st st')). drillZ \<le> d)"
proof -
  let ?pos = "\<lambda>param. lastParameter (gcode st) param [] (- 1) (Some 0)"
  have nr: "\<not> drillR < drillZ" using q d by simp
  have tr: "translateDrill cf st cmd obj
              = drill_moves cf st cmd obj ?pos drillX drillY drillZ drillR drillF"
    using X Y Z R F nr by (simp add: translateDrill_def)
  have "\<exists>rz. retractZ_of (drillRetractMode st) (?pos ''Z'') drillR = Inr rz"
    unfolding pz by (simp add: retractZ_of_def)
  then obtain rz where rz: "retractZ_of (drillRetractMode st) (?pos ''Z'') drillR = Inr rz"
    by blast
  define st1 where "st1 = (if posZ < rz then addCommand cf st ''G0'' [(''Z'', rz)] obj else st)"
  define st2 where "st2 = (if ?pos ''X'' \<noteq> Some drillX \<and> ?pos ''Y'' \<noteq> Some drillY
                           then addCommand cf st1 ''G0'' [(''X'', drillX), (''Y'', drillY)] obj else st1)"
  define st3 where "st3 = addCommand cf st2 ''G0'' [(''Z'', drillR)] obj"
  have s0: "gcode st = gcode st @ []" "feed_depths [] = []" by (simp_all add: feed_depths_Nil)
  obtain l1 where l1: "gcode st1 = gcode st @ l1" "feed_depths l1 = []"
    using addCommand_G0_steps [OF s0, of cf "[(''Z'', rz)]" obj] s0
    by (cases "posZ < rz") (auto simp add: st1_def)
  obtain l2 where l2: "gcode st2 = gcode st @ l2" "feed_depths l2 = []"
    using addCommand_G0_steps [OF l1, of cf "[(''X'', drillX), (''Y'', drillY)]" obj] l1
    by (cases "?pos ''X'' \<noteq> Some drillX \<and> ?pos ''Y'' \<noteq> Some drillY") (auto simp add: st2_def)
  obtain l3 where l3: "gcode st3 = gcode st @ l3" "feed_depths l3 = []" "ends_rapid (gcode st3)"
    using addCommand_G0_steps [OF l2, of cf "[(''Z'', drillR)]" obj] by (auto simp add: st3_def)
  obtain st4 where st4: "peck_loop cf obj drillZ drillR drillF drillStep st3 (drillR - drillStep) = Some st4"
    using peck_loop_terminates [OF q] by blast
  from peck_loop_feeds [OF st4] d l3(3) obtain ls where
    ls: "gcode st4 = gcode st3 @ ls" "feed_depths ls \<noteq> []" "last (feed_depths ls) = drillZ"
      "\<forall>d\<in>set (feed_depths ls). drillZ \<le> d"
    by blast
  define st' where "st' = addCommand cf st4 ''G0'' [(''Z'', rz)] obj"
  obtain l5 where l5: "gcode st' = gcode st4 @ l5" "feed_depths l5 = []"
    using addCommand_G0 [of cf st4 "[(''Z'', rz)]" obj] by (auto simp add: st'_def)
  have dc: "drill_cycle cf st3 cmd obj drillZ drillR drillF = Some (Inr st4)"
    using n Q st4 by (simp add: drill_cycle_def)
  have t: "translateDrill cf st cmd obj = Some (Inr st')"
    unfolding tr using rz pz dc
    by (simp add: drill_moves_def Let_def st1_def st2_def st3_def st'_def
        split del: if_split cong: if_cong)
  have g: "gcode st' = gcode st @ (l3 @ ls @ l5)"
    using l3 ls l5 by simp
  then have nl: "new_lines st st' = l3 @ ls @ l5"
    by (simp add: new_lines_def)
  have fd: "feed_depths (new_lines st st') = feed_depths ls"
    unfolding nl by (simp add: feed_depths_append l3 l5)
  show ?thesis
    using t g nl fd ls by (intro exI [of _ st']) simp
qed

text \<open>
  Claim C2. A peck step larger than the depth of the hole leaves the loop before its
  first pass: with Q=10, R=0 and Z=-5 the first stop would be at -10, below the target,
  so no feed move is emitted at all and the hole is not drilled. With Q=2 the cycle
  pecks at -2 and -4 and its last feed move ends at -5.
\<close>

theorem peck_step_beyond_depth:
  "translateDrill default_conf
      \<lparr>gcode = [Header ''Header Start'', Cmd \<lparr>Name = ''G0'', Parameters = [(''Z'', 10)]\<rparr>],
         drillRetractMode = Str ''G99'', job = Some (300, 500), console = []\<rparr>
      \<lparr>Name = ''G83'',
         Parameters = [(''X'', 10), (''Y'', 10), (''Z'', - 5), (''R'', 0), (''F'', 100), (''Q'', 10)]\<rparr>
      None
     = Some (Inr
        \<lparr>gcode =
           [Header ''Header Start'',
            Cmd \<lparr>Name = ''G0'', Parameters = [(''Z'', 10)]\<rparr>,
            Cmd \<lparr>Name = ''G0'', Parameters = [(''X'', 10), (''Y'', 10), (''F'', 500)]\<rparr>,
            Cmd \<lparr>Name = ''G0'', Parameters = [(''Z'', 0), (''F'', 300)]\<rparr>,
            Cmd \<lparr>Name = ''G0'', Parameters = [(''Z'', 0), (''F'', 300)]\<rparr>],
         drillRetractMode = Str ''G99'',
         job = Some (300, 500), console = []\<rparr>)
   \<and> translateDrill default_conf
      \<lparr>gcode = [Header ''Header Start'', Cmd \<lparr>Name = ''G0'', Parameters = [(''Z'', 10)]\<rparr>],
         drillRetractMode = Str ''G99'', job = Some (300, 500), console = []\<rparr>
      \<lparr>Name = ''G83'',
         Parameters = [(''X'', 10), (''Y'', 10), (''Z'', - 5), (''R'', 0), (''F'', 100), (''Q'', 2)]\<rparr>
      None
     = Some (Inr
        \<lparr>gcode =
           [Header ''Header Start'',
            Cmd \<lparr>Name = ''G0'', Parameters = [(''Z'', 10)]\<rparr>,
            Cmd \<lparr>Name = ''G0'', Parameters = [(''X'', 10), (''Y'', 10), (''F'', 500)]\<rparr>,
            Cmd \<lparr>Name = ''G0'', Parameters = [(''Z'', 0), (''F'', 300)]\<rparr>,
            Cmd \<lparr>Name = ''G1'', Parameters = [(''Z'', - 2), (''F'', 100)]\<rparr>,
            Cmd \<lparr>Name = ''G0'', Parameters = [(''Z'', 0), (''F'', 300)]\<rparr>,
            Cmd \<lparr>Name = ''G0'', Parameters = [(''Z'', - 1), (''F'', 300)]\<rparr>,
            Cmd \<lparr>Name = ''G1'', Parameters = [(''Z'', - 4), (''F'', 100)]\<rparr>,
            Cmd \<lparr>Name = ''G0'', Parameters = [(''Z'', 0), (''F'', 300)]\<rparr>,
            Cmd \<lparr>Name = ''G0'', Parameters = [(''Z'', - 3), (''F'', 300)]\<rparr>,
            Cmd \<lparr>Name = ''G1'', Parameters = [(''Z'', - 5), (''F'', 100)]\<rparr>,
            Cmd \<lparr>Name = ''G0'', Parameters = [(''Z'', 0), (''F'', 300)]\<rparr>],
         drillRetractMode = Str ''G99'',
         job = Some (300, 500), console = []\<rparr>)"
  by (intro conjI) code_simp+

section \<open>Rendering\<close>

subsection \<open>Spindle speed as a percentage\<close>

lemma py_int_of_int: "py_int (of_int n) = n"
  by (simp add: py_int_def)

lemma speedAsPercent_eq:
  assumes "0 < lo" "lo \<le> hi"
  shows "speedAsPercent (lo, hi) s = Inr \<lfloor>clamp s lo hi * 100 / hi\<rfloor>"
proof -
  have "max (min s hi) lo = clamp s lo hi"
    using assms by (auto simp add: clamp_def max_def min_def)
  then show ?thesis
    using assms by (simp add: speedAsPercent_def floordiv_def py_int_of_int)
qed

lemma percent_bounds:
  assumes "0 < lo" "lo \<le> hi"
  shows "0 \<le> \<lfloor>clamp s lo hi * 100 / hi\<rfloor>" "\<lfloor>clamp s lo hi * 100 / hi\<rfloor> \<le> 100"
proof -
  have c: "0 < clamp s lo hi" "clamp s lo hi \<le> hi"
    using assms by (auto simp add: clamp_def)
  have h: "0 < hi" using assms by simp
  from c h show "0 \<le> \<lfloor>clamp s lo hi * 100 / hi\<rfloor>" by simp
  have "clamp s lo hi * 100 / hi \<le> 100"
    using c h by (simp add: divide_le_eq)
  then show "\<lfloor>clamp s lo hi * 100 / hi\<rfloor> \<le> 100"
    by (simp add: floor_le_iff)
qed

lemma round_half_even_of_int: "round_half_even (of_int m) = m"
  by (simp add: round_half_even_def Let_def)

lemma decimal_0: "decimal 0 = ''0''"
  by (simp add: decimal.simps digit_char_def)

lemma fmt_f_int:
  assumes "0 \<le> p" "0 \<le> n"
  shows "fmt_f p (of_int n) = Inr (int_text p n)"
proof -
  let ?k = "nat p"
  have "rat_of_int n * 10 ^ ?k = of_int (n * 10 ^ ?k)"
    by simp
  then have r: "round_half_even (rat_of_int n * 10 ^ ?k) = n * 10 ^ ?k"
    by (simp only: round_half_even_of_int)
  have n: "nat (n * 10 ^ ?k) = nat n * 10 ^ ?k"
    using assms by (simp add: nat_mult_distrib nat_power_eq)
  have z: "replicate (?k - Suc 0) (CHR ''0'') @ ''0'' = replicate ?k (CHR ''0'')" if "?k \<noteq> 0"
    using that by (cases ?k) (simp_all add: replicate_append_same)
  show ?thesis
    using assms z
    by (simp add: fmt_f_def Let_def r n decimal_0 int_text_def round_half_even_of_int)
qed

lemma fmt_f_ok: "0 \<le> p \<Longrightarrow> \<exists>t. fmt_f p x = Inr t"
  by (simp add: fmt_f_def Let_def)

lemma param_token_other:
  assumes "0 \<le> precision cf" "p \<noteq> ''S''"
  shows "\<exists>ts ms. param_token fc rng cf c p = Inr (ts, ms) \<and> (\<forall>t\<in>set ts. \<exists>txt. t = p @ txt)"
proof (cases "dict_get (Parameters c) p")
  case None
  then show ?thesis by (simp add: param_token_def)
next
  case (Some v)
  obtain t1 where t1: "fmt_f (precision cf) (convertPosition fc v (units cf)) = Inr t1"
    using fmt_f_ok [OF assms(1)] by blast
  obtain t2 where t2: "fmt_f (precision cf) (convertSpeed fc v (units cf)) = Inr t2"
    using fmt_f_ok [OF assms(1)] by blast
  show ?thesis
    using Some assms(2) t1 t2 by (simp add: param_token_def Let_def)
qed

lemma collect_tokens_other:
  assumes "0 \<le> precision cf" "''S'' \<notin> set ps"
  shows "\<exists>ts ms. collect_tokens fc rng cf c ps = Inr (ts, ms)
           \<and> (\<forall>t\<in>set ts. \<exists>p\<in>set ps. \<exists>txt. t = p @ txt)"
  using assms(2)
proof (induction ps)
  case Nil
  then show ?case by simp
next
  case (Cons p ps)
  then have "p \<noteq> ''S''" "''S'' \<notin> set ps" by auto
  from param_token_other [OF assms(1) this(1), of fc rng c] obtain ts ms where
    a: "param_token fc rng cf c p = Inr (ts, ms)" "\<forall>t\<in>set ts. \<exists>txt. t = p @ txt" by blast
  from Cons.IH [OF \<open>''S'' \<notin> set ps\<close>] obtain ts' ms' where
    b: "collect_tokens fc rng cf c ps = Inr (ts', ms')" "\<forall>t\<in>set ts'. \<exists>p\<in>set ps. \<exists>txt. t = p @ txt" by blast
  show ?case using a b by auto
qed

lemma collect_tokens_append:
  "collect_tokens fc rng cf c xs = Inr (a, m) \<Longrightarrow> collect_tokens fc rng cf c ys = Inr (b, n)
   \<Longrightarrow> collect_tokens fc rng cf c (xs @ ys) = Inr (a @ b, m @ n)"
  by (induction xs arbitrary: a m) (auto split: sum.splits prod.splits)

lemma param_token_S:
  assumes "Name c \<in> set [''M3'', ''M03'', ''M4'', ''M04'']"
    and "dict_get (Parameters c) ''S'' = Some s"
    and "0 < lo" "lo \<le> hi" "0 \<le> precision cf"
  shows "param_token fc (lo, hi) cf c ''S'' =
           Inr ([''P'' @ int_text (precision cf) \<lfloor>clamp s lo hi * 100 / hi\<rfloor>], [])"
  using assms(1,2) speedAsPercent_eq [OF assms(3,4), of s]
    fmt_f_int [OF assms(5) percent_bounds(1) [OF assms(3,4), of s]]
  by (simp add: param_token_def)

text \<open>
  Claim C1, as the code has it. A spindle-on command (M3, M03, M4, M04) with S = \<open>s\<close>,
  rendered with a speed range \<open>0 < lo \<le> hi\<close> and a precision that is not negative: the
  line is the name and the tokens of the other letters, with one token for the speed.
  That token is the letter P followed by the integer \<open>\<lfloor>clamp s lo hi * 100 / hi\<rfloor>\<close>,
  which lies between 0 and 100 and is written with as many zero decimals as the
  precision asks for; no token of the line starts with the letter S.
\<close>

theorem spindle_speed_under_P:
  assumes "Name c \<in> set [''M3'', ''M03'', ''M4'', ''M04'']"
    and "dict_get (Parameters c) ''S'' = Some s"
    and "0 < lo" "lo \<le> hi" "0 \<le> precision cf"
  shows "speedAsPercent (lo, hi) s = Inr \<lfloor>clamp s lo hi * 100 / hi\<rfloor>
     \<and> 0 \<le> \<lfloor>clamp s lo hi * 100 / hi\<rfloor> \<and> \<lfloor>clamp s lo hi * 100 / hi\<rfloor> \<le> 100
     \<and> (\<exists>before after ms.
           Command_str fc (lo, hi) cf c =
             Inr (join (spacer cf)
                    (Name c # before
                       @ [''P'' @ int_text (precision cf) \<lfloor>clamp s lo hi * 100 / hi\<rfloor>]
                       @ after), ms)
           \<and> (\<forall>t \<in> set (before @ after). t \<noteq> [] \<and> hd t \<noteq> CHR ''S''))"
proof (intro conjI)
  show "speedAsPercent (lo, hi) s = Inr \<lfloor>clamp s lo hi * 100 / hi\<rfloor>"
    by (rule speedAsPercent_eq [OF assms(3,4)])
  show "0 \<le> \<lfloor>clamp s lo hi * 100 / hi\<rfloor>" "\<lfloor>clamp s lo hi * 100 / hi\<rfloor> \<le> 100"
    by (rule percent_bounds [OF assms(3,4)])+
  let ?pre = "[''X'', ''Y'', ''Z'', ''A'', ''B'', ''C'', ''I'', ''J'', ''F'']"
  let ?post = "[''T'', ''Q'', ''R'', ''L'', ''H'', ''D'', ''P'', ''O'']"
  let ?tok = "''P'' @ int_text (precision cf) \<lfloor>clamp s lo hi * 100 / hi\<rfloor>"
  have g: "GCODE_PARAMETERS = ?pre @ [''S''] @ ?post"
    by (simp add: GCODE_PARAMETERS_def)
  obtain before m1 where b: "collect_tokens fc (lo, hi) cf c ?pre = Inr (before, m1)"
      "\<forall>t\<in>set before. \<exists>p\<in>set ?pre. \<exists>txt. t = p @ txt"
    using collect_tokens_other [OF assms(5), of ?pre fc "(lo, hi)" c] by auto
  obtain after m2 where a: "collect_tokens fc (lo, hi) cf c ?post = Inr (after, m2)"
      "\<forall>t\<in>set after. \<exists>p\<in>set ?post. \<exists>txt. t = p @ txt"
    using collect_tokens_other [OF assms(5), of ?post fc "(lo, hi)" c] by auto
  have s: "collect_tokens fc (lo, hi) cf c [''S''] = Inr ([?tok], [])"
    using param_token_S [OF assms, of fc] by simp
  have "collect_tokens fc (lo, hi) cf c GCODE_PARAMETERS = Inr (before @ [?tok] @ after, m1 @ [] @ m2)"
    unfolding g by (intro collect_tokens_append b(1) a(1) s)
  then have c: "Command_str fc (lo, hi) cf c = Inr (join (spacer cf) (Name c # before @ [?tok] @ after), m1 @ m2)"
    by (simp add: Command_str_def)
  have "\<forall>t \<in> set (before @ after). t \<noteq> [] \<and> hd t \<noteq> CHR ''S''"
    using b(2) a(2) by auto
  with c show "\<exists>before after ms.
           Command_str fc (lo, hi) cf c =
             Inr (join (spacer cf) (Name c # before @ [?tok] @ after), ms)
           \<and> (\<forall>t \<in> set (before @ after). t \<noteq> [] \<and> hd t \<noteq> CHR ''S'')"
    by blast
qed

theorem spindle_speed_under_P_witness:
  "speedAsPercent SPINDLE_SPEEDS 9000 = Inr 75
   \<and> (\<exists>before after ms.
        Command_str \<lparr>convertPosition = (\<lambda>x u. x), convertSpeed = (\<lambda>x u. x * 60), float_str = (\<lambda>x. [])\<rparr>
          SPINDLE_SPEEDS default_conf \<lparr>Name = ''M3'', Parameters = [(''S'', 9000)]\<rparr>
        = Inr (join '' '' (''M3'' # before @ [''P75.000''] @ after), ms))
   \<and> (\<exists>before after ms.
        Command_str \<lparr>convertPosition = (\<lambda>x u. x), convertSpeed = (\<lambda>x u. x * 60), float_str = (\<lambda>x. [])\<rparr>
          SPINDLE_SPEEDS (default_conf\<lparr>precision := 0\<rparr>) \<lparr>Name = ''M3'', Parameters = [(''S'', 9000)]\<rparr>
        = Inr (join '' '' (''M3'' # before @ [''P75''] @ after), ms))"
proof -
  let ?fc = "\<lparr>convertPosition = (\<lambda>x u. x), convertSpeed = (\<lambda>x u. x * 60), float_str = (\<lambda>x. [])\<rparr>"
  let ?c = "\<lparr>Name = ''M3'', Parameters = [(''S'', 9000)]\<rparr>"
  have n: "Name ?c \<in> set [''M3'', ''M03'', ''M4'', ''M04'']" by simp
  have s: "dict_get (Parameters ?c) ''S'' = Some 9000" by (simp add: dict_get_def)
  have r: "(0::rat) < 6000" "(6000::rat) \<le> 12000" by simp_all
  have p3: "0 \<le> precision default_conf" by (simp add: default_conf_def)
  have p0: "0 \<le> precision (default_conf\<lparr>precision := 0\<rparr>)" by simp
  have v: "\<lfloor>clamp 9000 6000 12000 * 100 / 12000\<rfloor> = 75" by (simp add: clamp_def)
  have t3: "int_text (precision default_conf) 75 = ''75.000''" by code_simp
  have t0: "int_text (precision (default_conf\<lparr>precision := 0\<rparr>)) 75 = ''75''" by code_simp
  have sp: "spacer default_conf = '' ''" "spacer (default_conf\<lparr>precision := 0\<rparr>) = '' ''"
    by (simp_all add: default_conf_def)
  note a = spindle_speed_under_P [OF n s r p3, of ?fc, unfolded v t3 sp]
  note b = spindle_speed_under_P [OF n s r p0, of ?fc, unfolded v t0 sp]
  from a have 1: "speedAsPercent SPINDLE_SPEEDS 9000 = Inr 75"
    by (simp add: SPINDLE_SPEEDS_def)
  from a have 2: "\<exists>before after ms. Command_str ?fc SPINDLE_SPEEDS default_conf ?c
        = Inr (join '' '' (''M3'' # before @ [''P75.000''] @ after), ms)"
    unfolding SPINDLE_SPEEDS_def by (elim conjE exE) (intro exI, simp)
  from b have 3: "\<exists>before after ms. Command_str ?fc SPINDLE_SPEEDS (default_conf\<lparr>precision := 0\<rparr>) ?c
        = Inr (join '' '' (''M3'' # before @ [''P75''] @ after), ms)"
    unfolding SPINDLE_SPEEDS_def by (elim conjE exE) (intro exI, simp)
  from 1 2 3 show ?thesis by blast
qed

text \<open>
  At the default precision of three decimals the line for M3 S9000 is
  \<^verbatim>\<open>M3 P75.000\<close>, not \<^verbatim>\<open>M3 P75\<close>.
\<close>

theorem spindle_text_has_decimals:
  "Command_str \<lparr>convertPosition = (\<lambda>x u. x), convertSpeed = (\<lambda>x u. x * 60), float_str = (\<lambda>x. [])\<rparr>
      SPINDLE_SPEEDS default_conf \<lparr>Name = ''M3'', Parameters = [(''S'', 9000)]\<rparr>
     = Inr (''M3 P75.000'', [])
   \<and> Command_str \<lparr>convertPosition = (\<lambda>x u. x), convertSpeed = (\<lambda>x u. x * 60), float_str = (\<lambda>x. [])\<rparr>
      SPINDLE_SPEEDS default_conf \<lparr>Name = ''M3'', Parameters = [(''S'', 9000)]\<rparr>
     \<noteq> Inr (''M3 P75'', [])"
proof -
  let ?fc = "\<lparr>convertPosition = (\<lambda>x u. x), convertSpeed = (\<lambda>x u. x * 60), float_str = (\<lambda>x. [])\<rparr>"
  let ?c = "\<lparr>Name = ''M3'', Parameters = [(''S'', 9000)]\<rparr>"
  have n: "Name ?c \<in> set [''M3'', ''M03'', ''M4'', ''M04'']" by simp
  have s: "dict_get (Parameters ?c) ''S'' = Some 9000" by (simp add: dict_get_def)
  have r: "(0::rat) < 6000" "(6000::rat) \<le> 12000" by simp_all
  have p3: "0 \<le> precision default_conf" by (simp add: default_conf_def)
  have v: "\<lfloor>clamp 9000 6000 12000 * 100 / 12000\<rfloor> = 75" by (simp add: clamp_def)
  have t3: "int_text (precision default_conf) 75 = ''75.000''" by code_simp
  have tok: "param_token ?fc SPINDLE_SPEEDS default_conf ?c ''S'' = Inr ([''P75.000''], [])"
    using param_token_S [OF n s r p3, of ?fc, unfolded v t3] by (simp add: SPINDLE_SPEEDS_def)
  have other: "p \<noteq> ''S'' \<Longrightarrow> param_token ?fc SPINDLE_SPEEDS default_conf ?c p = Inr ([], [])" for p
    by (simp add: param_token_def dict_get_def)
  have "collect_tokens ?fc SPINDLE_SPEEDS default_conf ?c GCODE_PARAMETERS = Inr ([''P75.000''], [])"
    by (simp add: GCODE_PARAMETERS_def tok other)
  then have "Command_str ?fc SPINDLE_SPEEDS default_conf ?c = Inr (''M3 P75.000'', [])"
    by (simp add: Command_str_def default_conf_def)
  then show ?thesis by simp
qed

subsection \<open>Line numbers\<close>

text \<open>
  Claim C9, as the code has it. With line numbers enabled, the lines of the output are
  the texts of the lines of the stream whose type is rendered, in order. A command or a
  plain string gets the prefix \<open>N\<close>, the number \<open>line_start + n * line_increment\<close> and the
  spacer, where \<open>n\<close> counts the commands and plain strings before it (starting from the
  counter \<open>nbr\<close>, which is 0 in \<^verbatim>\<open>Gcode.__str__\<close>). A comment or a header is rendered
  without a number and is not counted.
\<close>

theorem line_numbers_on_commands_and_text:
  assumes "line_numbers cf" and "Gcode_lines fc rng cf nbr g = Inr (ts, ms)"
  shows "length ts = length (filter (in_types cf) g)
     \<and> (\<forall>k < length ts.
          \<exists>t m. line_str fc rng cf (filter (in_types cf) g ! k) = Inr (t, m)
            \<and> ts ! k =
               (if is_Command_or_str (filter (in_types cf) g ! k)
                then ''N''
                  @ str_int
                      (line_start cf
                       + (nbr + int (length (filter is_Command_or_str (take k (filter (in_types cf) g)))))
                         * line_increment cf)
                  @ spacer cf @ t
                else t))"
  using assms(2)
proof (induction g arbitrary: nbr ts ms)
  case Nil
  then show ?case by simp
next
  case (Cons x xs)
  show ?case
  proof (cases "in_types cf x")
    case False
    with Cons.prems have r: "Gcode_lines fc rng cf nbr xs = Inr (ts, ms)" by simp
    have f: "filter (in_types cf) (x # xs) = filter (in_types cf) xs" using False by simp
    show ?thesis unfolding f by (rule Cons.IH [OF r])
  next
    case True
    from Cons.prems True obtain t m where l: "line_str fc rng cf x = Inr (t, m)"
      by (cases "line_str fc rng cf x") auto
    let ?nbr' = "if is_Command_or_str x then nbr + 1 else nbr"
    let ?head = "if is_Command_or_str x
                 then ''N'' @ str_int (line_start cf + nbr * line_increment cf) @ spacer cf @ t
                 else t"
    from Cons.prems True l assms(1) obtain ts' ms' where
      r: "Gcode_lines fc rng cf ?nbr' xs = Inr (ts', ms')" and e: "ts = ?head # ts'"
      by (cases "is_Command_or_str x") (auto split: sum.splits)
    note ih = Cons.IH [OF r]
    have len: "length ts = length (filter (in_types cf) (x # xs))"
      using ih e True by simp
    have "\<exists>t m. line_str fc rng cf (filter (in_types cf) (x # xs) ! k) = Inr (t, m)
            \<and> ts ! k =
               (if is_Command_or_str (filter (in_types cf) (x # xs) ! k)
                then ''N''
                  @ str_int
                      (line_start cf
                       + (nbr + int (length (filter is_Command_or_str (take k (filter (in_types cf) (x # xs))))))
                         * line_increment cf)
                  @ spacer cf @ t
                else t)" if k: "k < length ts" for k
    proof (cases k)
      case 0
      then show ?thesis using True l e by simp
    next
      case (Suc j)
      with k e have j: "j < length ts'" by simp
      from ih j obtain t' m' where
        a: "line_str fc rng cf (filter (in_types cf) xs ! j) = Inr (t', m')"
        and b: "ts' ! j =
               (if is_Command_or_str (filter (in_types cf) xs ! j)
                then ''N''
                  @ str_int
                      (line_start cf
                       + (?nbr' + int (length (filter is_Command_or_str (take j (filter (in_types cf) xs)))))
                         * line_increment cf)
                  @ spacer cf @ t'
                else t')"
        by blast
      have c: "?nbr' + int (length (filter is_Command_or_str (take j (filter (in_types cf) xs))))
            = nbr + int (length (filter is_Command_or_str (take k (filter (in_types cf) (x # xs)))))"
        using True Suc by simp
      show ?thesis
        using a b True Suc e unfolding c [symmetric] by simp
    qed
    with len show ?thesis by blast
  qed
qed

theorem line_numbers_on_commands_and_text_witness:
  "line_numbers (default_conf\<lparr>line_numbers := True, line_start := 10, line_increment := 5\<rparr>)
   \<and> Gcode_lines \<lparr>convertPosition = (\<lambda>x u. x), convertSpeed = (\<lambda>x u. x * 60), float_str = (\<lambda>x. [])\<rparr>
        SPINDLE_SPEEDS (default_conf\<lparr>line_numbers := True, line_start := 10, line_increment := 5\<rparr>) 0
        [Header ''h'', Cmd \<lparr>Name = ''G90'', Parameters = []\<rparr>, Comment ''c'', Str ''M400'']
      = Inr (['';h'', ''N10 G90'', '';c'', ''N15 M400''], [])
   \<and> length ['';h'', ''N10 G90'', '';c'', ''N15 M400'']
      = length (filter (in_types (default_conf\<lparr>line_numbers := True, line_start := 10, line_increment := 5\<rparr>))
          [Header ''h'', Cmd \<lparr>Name = ''G90'', Parameters = []\<rparr>, Comment ''c'', Str ''M400''])
   \<and> ['';h'', ''N10 G90'', '';c'', ''N15 M400''] ! 3
      = ''N'' @ str_int (10 + (0 + 1) * 5) @ '' '' @ ''M400''"
proof -
  let ?fc = "\<lparr>convertPosition = (\<lambda>x u. x), convertSpeed = (\<lambda>x u. x * 60), float_str = (\<lambda>x. [])\<rparr>"
  let ?cf = "default_conf\<lparr>line_numbers := True, line_start := 10, line_increment := 5\<rparr>"
  let ?g = "[Header ''h'', Cmd \<lparr>Name = ''G90'', Parameters = []\<rparr>, Comment ''c'', Str ''M400'']"
  let ?ts = "['';h'', ''N10 G90'', '';c'', ''N15 M400'']"
  have n: "line_numbers ?cf" by simp
  have e: "Gcode_lines ?fc SPINDLE_SPEEDS ?cf 0 ?g = Inr (?ts, [])" by code_simp
  note t = line_numbers_on_commands_and_text [OF n e]
  have f: "filter (in_types ?cf) ?g = ?g" by (simp add: default_conf_def)
  have k: "(3::nat) < length ?ts" by simp
  from t [THEN conjunct2, rule_format, OF k] obtain tx m where
    a: "line_str ?fc SPINDLE_SPEEDS ?cf (filter (in_types ?cf) ?g ! 3) = Inr (tx, m)"
    and b: "?ts ! 3 =
               (if is_Command_or_str (filter (in_types ?cf) ?g ! 3)
                then ''N''
                  @ str_int
                      (line_start ?cf
                       + (0 + int (length (filter is_Command_or_str (take 3 (filter (in_types ?cf) ?g)))))
                         * line_increment ?cf)
                  @ spacer ?cf @ tx
                else tx)"
    by blast
  from a have tx: "tx = ''M400''" unfolding f by simp
  have c: "take 3 ?g = [Header ''h'', Cmd \<lparr>Name = ''G90'', Parameters = []\<rparr>, Comment ''c'']"
    by (simp add: eval_nat_numeral)
  from b have "?ts ! 3 = ''N'' @ str_int (10 + (0 + 1) * 5) @ '' '' @ ''M400''"
    unfolding f tx c by (simp add: default_conf_def eval_nat_numeral)
  with n e t [THEN conjunct1] show ?thesis by blast
qed

text \<open>
  A comment, rendered when comments are enabled, carries no line number, and the
  command after it is numbered as the first line.
\<close>

theorem comment_line_has_no_number:
  "Gcode_lines \<lparr>convertPosition = (\<lambda>x u. x), convertSpeed = (\<lambda>x u. x * 60), float_str = (\<lambda>x. [])\<rparr>
      SPINDLE_SPEEDS (default_conf\<lparr>line_numbers := True\<rparr>) 0
      [Comment ''CONFIGURATION'', Cmd \<lparr>Name = ''G90'', Parameters = []\<rparr>]
     = Inr (['';CONFIGURATION'', ''N1 G90''], [])
   \<and> Gcode_str \<lparr>convertPosition = (\<lambda>x u. x), convertSpeed = (\<lambda>x u. x * 60), float_str = (\<lambda>x. [])\<rparr>
      SPINDLE_SPEEDS (default_conf\<lparr>line_numbers := True\<rparr>)
      [Comment ''CONFIGURATION'', Cmd \<lparr>Name = ''G90'', Parameters = []\<rparr>]
     = Inr ('';CONFIGURATION'' @ [CHR 0x0A] @ ''N1 G90'', [])
   \<and> Gcode_lines \<lparr>convertPosition = (\<lambda>x u. x), convertSpeed = (\<lambda>x u. x * 60), float_str = (\<lambda>x. [])\<rparr>
      SPINDLE_SPEEDS (default_conf\<lparr>line_numbers := True\<rparr>) 0
      [Comment ''CONFIGURATION'', Cmd \<lparr>Name = ''G90'', Parameters = []\<rparr>]
     \<noteq> Inr ([''N1 ;CONFIGURATION'', ''N2 G90''], [])"
proof -
  have a: "Gcode_lines \<lparr>convertPosition = (\<lambda>x u. x), convertSpeed = (\<lambda>x u. x * 60), float_str = (\<lambda>x. [])\<rparr>
      SPINDLE_SPEEDS (default_conf\<lparr>line_numbers := True\<rparr>) 0
      [Comment ''CONFIGURATION'', Cmd \<lparr>Name = ''G90'', Parameters = []\<rparr>]
     = Inr (['';CONFIGURATION'', ''N1 G90''], [])"
    by code_simp
  have b: "Gcode_str \<lparr>convertPosition = (\<lambda>x u. x), convertSpeed = (\<lambda>x u. x * 60), float_str = (\<lambda>x. [])\<rparr>
      SPINDLE_SPEEDS (default_conf\<lparr>line_numbers := True\<rparr>)
      [Comment ''CONFIGURATION'', Cmd \<lparr>Name = ''G90'', Parameters = []\<rparr>]
     = Inr ('';CONFIGURATION'' @ [CHR 0x0A] @ ''N1 G90'', [])"
    by code_simp
  from a b show ?thesis by simp
qed

section \<open>The boundary check\<close>

lemma replay_init_of: "replay_init = replay_of (0, 0, 0) (0, 0, 0) (0, 0, 0)"
  by (simp add: replay_init_def replay_of_def)

lemma replay_axis_X:
  "replay_axis fl c (replay_of tx ty tz) ''X'' = replay_of (track_step tx (dict_get (Parameters c) ''X'')) ty tz"
  by (cases "dict_get (Parameters c) ''X''")
     (simp_all add: replay_axis_def replay_of_def track_step_def Let_def)

lemma replay_axis_Y:
  "replay_axis fl c (replay_of tx ty tz) ''Y'' = replay_of tx (track_step ty (dict_get (Parameters c) ''Y'')) tz"
  by (cases "dict_get (Parameters c) ''Y''")
     (simp_all add: replay_axis_def replay_of_def track_step_def Let_def)

lemma replay_axis_Z:
  "replay_axis fl c (replay_of tx ty tz) ''Z'' = replay_of tx ty (track_step tz (dict_get (Parameters c) ''Z''))"
  by (cases "dict_get (Parameters c) ''Z''")
     (simp_all add: replay_axis_def replay_of_def track_step_def Let_def)

lemma boundaries_keys: "map fst (boundaries (replay_of tx ty tz)) = [''X'', ''Y'', ''Z'']"
  by (simp add: replay_of_def)

lemma replay_line_of:
  "replay_line fl (replay_of tx ty tz) l =
     replay_of (track_step tx (axis_value ''X'' l)) (track_step ty (axis_value ''Y'' l))
       (track_step tz (axis_value ''Z'' l))"
proof (cases l)
  case (Cmd c)
  show ?thesis
  proof (cases "Name c = ''G0'' \<or> Name c = ''G1''")
    case True
    then have n: "Name c \<noteq> ''G90''" "Name c \<noteq> ''G91''" by auto
    show ?thesis
      using True n unfolding Cmd
      by (simp add: boundaries_keys replay_axis_X replay_axis_Y replay_axis_Z del: replay_axis_def)
  next
    case False
    then show ?thesis
      unfolding Cmd by (simp add: track_step_def) (simp add: replay_of_def)
  qed
qed (simp_all add: track_step_def)

lemma replay_fold_of:
  "foldl (replay_line fl) (replay_of tx ty tz) g =
     replay_of (foldl track_step tx (map (axis_value ''X'') g))
       (foldl track_step ty (map (axis_value ''Y'') g))
       (foldl track_step tz (map (axis_value ''Z'') g))"
  by (induction g arbitrary: tx ty tz) (simp_all add: replay_line_of)

lemma track_fold_max:
  "fst (snd (foldl track_step t vs)) = fold max (List.map_filter id vs) (fst (snd t))"
  by (induction vs arbitrary: t)
     (auto simp add: track_step_def List.map_filter_simps max.commute split: option.splits)

lemma track_fold_min:
  "snd (snd (foldl track_step t vs)) = fold min (List.map_filter id vs) (snd (snd t))"
  by (induction vs arbitrary: t)
     (auto simp add: track_step_def List.map_filter_simps min.commute split: option.splits)

lemma map_filter_axis: "List.map_filter id (map (axis_value a) g) = List.map_filter (axis_value a) g"
  by (induction g) (simp_all add: List.map_filter_simps split: option.splits)

lemma motion_value_plain: "plain_motion l \<Longrightarrow> motion_value a l = axis_value a l"
  by (cases l) (auto simp add: MOTION_def)

lemma positions_plain: "only_G0_G1 g \<Longrightarrow> positions a g = List.map_filter (axis_value a) g"
  unfolding only_G0_G1_def positions_def
  by (induction g) (auto simp add: List.map_filter_simps motion_value_plain split: option.splits)

lemma track_max_visited:
  "only_G0_G1 g \<Longrightarrow>
   fst (snd (foldl track_step (0, 0, 0) (map (axis_value a) g))) = Max (set (visited a g))"
  unfolding visited_def Max.set_eq_fold by (simp add: track_fold_max map_filter_axis positions_plain)

lemma track_min_visited:
  "only_G0_G1 g \<Longrightarrow>
   snd (snd (foldl track_step (0, 0, 0) (map (axis_value a) g))) = Min (set (visited a g))"
  unfolding visited_def Min.set_eq_fold by (simp add: track_fold_min map_filter_axis positions_plain)

lemma limit_warnings_of:
  "limit_warnings fl (replay_of tx ty tz) [lx, ly, lz] =
     (if \<bar>float_sub fl (fst (snd tx)) (snd (snd tx))\<bar> > lx then [axis_warning ''X''] else [])
     @ (if \<bar>float_sub fl (fst (snd ty)) (snd (snd ty))\<bar> > ly then [axis_warning ''Y''] else [])
     @ (if \<bar>float_sub fl (fst (snd tz)) (snd (snd tz))\<bar> > lz then [axis_warning ''Z''] else [])"
  by (simp add: limit_warnings_def replay_of_def)

lemma replay_warnings:
  assumes "only_G0_G1 g"
  shows "limit_warnings fl (foldl (replay_line fl) replay_init g) [lx, ly, lz] =
     (if extent fl ''X'' g > lx then [axis_warning ''X''] else [])
     @ (if extent fl ''Y'' g > ly then [axis_warning ''Y''] else [])
     @ (if extent fl ''Z'' g > lz then [axis_warning ''Z''] else [])"
proof -
  have a: "\<bar>float_sub fl (fst (snd (foldl track_step (0, 0, 0) (map (axis_value a) g))))
            (snd (snd (foldl track_step (0, 0, 0) (map (axis_value a) g))))\<bar> = extent fl a g" for a
    unfolding track_max_visited [OF assms] track_min_visited [OF assms] extent_def ..
  show ?thesis
    unfolding replay_init_of replay_fold_of limit_warnings_of a ..
qed

lemma checkBoundaries_gcode: "gcode (fst (checkBoundaries fl tbl cf st)) = gcode st"
  by (simp add: checkBoundaries_def Let_def split: option.splits)

text \<open>
  Claim C8. For a stream whose motion instructions are all spelled \<^verbatim>\<open>G0\<close> or \<^verbatim>\<open>G1\<close>, and
  a configured machine that is in the table with the limits \<open>lx\<close>, \<open>ly\<close>, \<open>lz\<close>: the boundary
  check prints, after its log line, one warning for each axis whose extent exceeds its
  limit, in the order X, Y, Z, and nothing else. The extent is the float difference
  (in absolute value) of the largest and the smallest position visited, the origin 0
  counted among the positions, every value taken as an absolute position. The stream
  is not touched, and the text that \<^verbatim>\<open>export\<close> writes (or the error of rendering it) is
  that of the stream, whatever the check found.
\<close>

theorem boundary_warnings:
  assumes "machine cf = Some m" and "map_of tbl m = Some [lx, ly, lz]"
    and "only_G0_G1 (gcode st)"
  shows "checkBoundaries fl tbl cf st =
           (st\<lparr>console := console st @ [(Log, ''Boundaries check/n'')]
                  @ (if extent fl ''X'' (gcode st) > lx then [axis_warning ''X''] else [])
                  @ (if extent fl ''Y'' (gcode st) > ly then [axis_warning ''Y''] else [])
                  @ (if extent fl ''Z'' (gcode st) > lz then [axis_warning ''Z''] else [])\<rparr>,
            None)
     \<and> gcode (fst (checkBoundaries fl tbl cf st)) = gcode st
     \<and> map_sum id fst (export_data fl tbl fc rng cf st) = map_sum id fst (Gcode_str fc rng cf (gcode st))"
proof (intro conjI)
  show "checkBoundaries fl tbl cf st =
           (st\<lparr>console := console st @ [(Log, ''Boundaries check/n'')]
                  @ (if extent fl ''X'' (gcode st) > lx then [axis_warning ''X''] else [])
                  @ (if extent fl ''Y'' (gcode st) > ly then [axis_warning ''Y''] else [])
                  @ (if extent fl ''Z'' (gcode st) > lz then [axis_warning ''Z''] else [])\<rparr>,
            None)"
    using assms(1,2) by (simp add: checkBoundaries_def Let_def replay_warnings [OF assms(3)])
  show "gcode (fst (checkBoundaries fl tbl cf st)) = gcode st" by (rule checkBoundaries_gcode)
  show "map_sum id fst (export_data fl tbl fc rng cf st) = map_sum id fst (Gcode_str fc rng cf (gcode st))"
    by (simp add: export_data_def Let_def checkBoundaries_gcode split: sum.splits prod.splits)
qed

theorem boundary_warnings_witness:
  "machine (default_conf\<lparr>machine := Some ''bench''\<rparr>) = Some ''bench''
   \<and> map_of ((''bench'', [100, 100, 50]) # BOUNDARIES) ''bench'' = Some [100, 100, 50]
   \<and> only_G0_G1 [Cmd \<lparr>Name = ''G0'', Parameters = [(''X'', - 20), (''Y'', 0), (''Z'', 10)]\<rparr>,
                  Cmd \<lparr>Name = ''G1'', Parameters = [(''X'', 100), (''Y'', 50), (''Z'', - 5)]\<rparr>]
   \<and> extent unrounded ''X'' [Cmd \<lparr>Name = ''G0'', Parameters = [(''X'', - 20), (''Y'', 0), (''Z'', 10)]\<rparr>,
                   Cmd \<lparr>Name = ''G1'', Parameters = [(''X'', 100), (''Y'', 50), (''Z'', - 5)]\<rparr>] = 120
   \<and> extent unrounded ''Y'' [Cmd \<lparr>Name = ''G0'', Parameters = [(''X'', - 20), (''Y'', 0), (''Z'', 10)]\<rparr>,
                   Cmd \<lparr>Name = ''G1'', Parameters = [(''X'', 100), (''Y'', 50), (''Z'', - 5)]\<rparr>] = 50
   \<and> extent unrounded ''Z'' [Cmd \<lparr>Name = ''G0'', Parameters = [(''X'', - 20), (''Y'', 0), (''Z'', 10)]\<rparr>,
                   Cmd \<lparr>Name = ''G1'', Parameters = [(''X'', 100), (''Y'', 50), (''Z'', - 5)]\<rparr>] = 15
   \<and> checkBoundaries unrounded ((''bench'', [100, 100, 50]) # BOUNDARIES) (default_conf\<lparr>machine := Some ''bench''\<rparr>)
        \<lparr>gcode = [Cmd \<lparr>Name = ''G0'', Parameters = [(''X'', - 20), (''Y'', 0), (''Z'', 10)]\<rparr>,
                  Cmd \<lparr>Name = ''G1'', Parameters = [(''X'', 100), (''Y'', 50), (''Z'', - 5)]\<rparr>],
         drillRetractMode = Str ''G99'', job = None, console = []\<rparr>
     = (\<lparr>gcode = [Cmd \<lparr>Name = ''G0'', Parameters = [(''X'', - 20), (''Y'', 0), (''Z'', 10)]\<rparr>,
                   Cmd \<lparr>Name = ''G1'', Parameters = [(''X'', 100), (''Y'', 50), (''Z'', - 5)]\<rparr>],
          drillRetractMode = Str ''G99'', job = None,
          console = [(Log, ''Boundaries check/n''), axis_warning ''X'']\<rparr>, None)"
proof -
  let ?cf = "default_conf\<lparr>machine := Some ''bench''\<rparr>"
  let ?tbl = "(''bench'', [100, 100, 50]) # BOUNDARIES"
  let ?g = "[Cmd \<lparr>Name = ''G0'', Parameters = [(''X'', - 20), (''Y'', 0), (''Z'', 10)]\<rparr>,
             Cmd \<lparr>Name = ''G1'', Parameters = [(''X'', 100), (''Y'', 50), (''Z'', - 5)]\<rparr>]"
  let ?st = "\<lparr>gcode = ?g, drillRetractMode = Str ''G99'', job = None, console = []\<rparr>"
  have m: "machine ?cf = Some ''bench''" by simp
  have l: "map_of ?tbl ''bench'' = Some [100, 100, 50]" by simp
  have p: "only_G0_G1 ?g" by (simp add: only_G0_G1_def)
  have p': "only_G0_G1 (gcode ?st)" using p by simp
  have x: "extent unrounded ''X'' ?g = 120" and y: "extent unrounded ''Y'' ?g = 50"
    and z: "extent unrounded ''Z'' ?g = 15"
    by (simp_all add: extent_def visited_def positions_def MOTION_def unrounded_def
          List.map_filter_simps dict_get_def)
  have "checkBoundaries unrounded ?tbl ?cf ?st =
           (?st\<lparr>console := console ?st @ [(Log, ''Boundaries check/n'')]
                  @ (if extent unrounded ''X'' (gcode ?st) > 100 then [axis_warning ''X''] else [])
                  @ (if extent unrounded ''Y'' (gcode ?st) > 100 then [axis_warning ''Y''] else [])
                  @ (if extent unrounded ''Z'' (gcode ?st) > 50 then [axis_warning ''Z''] else [])\<rparr>,
            None)"
    by (rule boundary_warnings [OF m l p', THEN conjunct1])
  also have "\<dots> = (\<lparr>gcode = ?g, drillRetractMode = Str ''G99'', job = None,
          console = [(Log, ''Boundaries check/n''), axis_warning ''X'']\<rparr>, None)"
    by (simp add: x y z)
  finally show ?thesis using m l p x y z by blast
qed

text \<open>
  The claim as first stated does not hold. On the machine \<^verbatim>\<open>original\<close>, limits
  (90, 90, 50), a job that moves between X=50 and X=120 spans 70 on X, within the limit,
  and the check warns on X: its extent starts from the origin and is 120. A job that
  moves from X=-500 to X=900 with \<^verbatim>\<open>G00\<close> and \<^verbatim>\<open>G01\<close>, two names that \<^verbatim>\<open>GCODE_COMMANDS\<close>
  lets into the stream, spans 1400 on X, and the check prints no warning: it replays
  no command under these names.
\<close>

theorem warning_is_not_span_over_limit:
  "map_of BOUNDARIES ''original'' = Some [90, 90, 50]
   \<and> span ''X'' [Cmd \<lparr>Name = ''G0'', Parameters = [(''X'', 50), (''Y'', 0), (''Z'', 0)]\<rparr>,
                 Cmd \<lparr>Name = ''G1'', Parameters = [(''X'', 120), (''Y'', 0), (''Z'', 0)]\<rparr>] = 70
   \<and> checkBoundaries unrounded BOUNDARIES (default_conf\<lparr>machine := Some ''original''\<rparr>)
        \<lparr>gcode = [Cmd \<lparr>Name = ''G0'', Parameters = [(''X'', 50), (''Y'', 0), (''Z'', 0)]\<rparr>,
                  Cmd \<lparr>Name = ''G1'', Parameters = [(''X'', 120), (''Y'', 0), (''Z'', 0)]\<rparr>],
         drillRetractMode = Str ''G99'', job = None, console = []\<rparr>
     = (\<lparr>gcode = [Cmd \<lparr>Name = ''G0'', Parameters = [(''X'', 50), (''Y'', 0), (''Z'', 0)]\<rparr>,
                   Cmd \<lparr>Name = ''G1'', Parameters = [(''X'', 120), (''Y'', 0), (''Z'', 0)]\<rparr>],
          drillRetractMode = Str ''G99'', job = None,
          console = [(Log, ''Boundaries check/n''), axis_warning ''X'']\<rparr>, None)
   \<and> ''G00'' \<in> set GCODE_COMMANDS \<and> ''G01'' \<in> set GCODE_COMMANDS
   \<and> span ''X'' [Cmd \<lparr>Name = ''G00'', Parameters = [(''X'', - 500), (''Y'', 0), (''Z'', 0)]\<rparr>,
                 Cmd \<lparr>Name = ''G01'', Parameters = [(''X'', 900), (''Y'', 0), (''Z'', 0)]\<rparr>] = 1400
   \<and> checkBoundaries unrounded BOUNDARIES (default_conf\<lparr>machine := Some ''original''\<rparr>)
        \<lparr>gcode = [Cmd \<lparr>Name = ''G00'', Parameters = [(''X'', - 500), (''Y'', 0), (''Z'', 0)]\<rparr>,
                  Cmd \<lparr>Name = ''G01'', Parameters = [(''X'', 900), (''Y'', 0), (''Z'', 0)]\<rparr>],
         drillRetractMode = Str ''G99'', job = None, console = []\<rparr>
     = (\<lparr>gcode = [Cmd \<lparr>Name = ''G00'', Parameters = [(''X'', - 500), (''Y'', 0), (''Z'', 0)]\<rparr>,
                   Cmd \<lparr>Name = ''G01'', Parameters = [(''X'', 900), (''Y'', 0), (''Z'', 0)]\<rparr>],
          drillRetractMode = Str ''G99'', job = None,
          console = [(Log, ''Boundaries check/n'')]\<rparr>, None)"
  by code_simp

end
